(* ===== verification/Go_Prelude.thy ===== *)
theory Go_Prelude
  imports Complex_Main "HOL-Library.Word"
begin

text \<open>
  Shared vocabulary of the development: the types that stand for Go's machine types,
  the collection \<open>go_eval\<close> of evaluation rules for the models of Go library functions,
  and generic lemmas on lists, options and 64-bit words that the component theories share.
  Go's \<open>int\<close> on the 64-bit platforms the service runs on is \<open>64 word\<close>, read as a
  signed value with \<open>sint\<close>; Go strings are byte strings, modelled as \<open>string\<close>
  (a list of 8-bit \<open>char\<close>s).
\<close>

named_theorems go_eval "evaluation rules for the models of Go library functions"

type_synonym go_int = "64 word"

text \<open>The range of a Go \<open>int\<close> (\<open>math.MinInt64 .. math.MaxInt64\<close>).\<close>

definition in_go_int_range :: "int \<Rightarrow> bool" where
  "in_go_int_range v \<longleftrightarrow> - (2 ^ 63) \<le> v \<and> v < 2 ^ 63"

text \<open>An optional value as a list of at most one element, the shape of a check that
  reports one violation or none.\<close>

definition opt_list :: "'a option \<Rightarrow> 'a list" where
  "opt_list r = (case r of None \<Rightarrow> [] | Some x \<Rightarrow> [x])"

subsection \<open>Words and the Go int range\<close>

lemma sint_word_of_int_in_range [simp]:
  "in_go_int_range v \<Longrightarrow> sint (word_of_int v :: go_int) = v"
  by (simp add: in_go_int_range_def sint_sbintrunc' signed_take_bit_int_eq_self)

lemma in_go_int_range_sint [simp]: "in_go_int_range (sint (w :: go_int))"
  using sint_ge [of w] sint_less [of w] by (simp add: in_go_int_range_def)

lemma sint_diff_in_range:
  "in_go_int_range (sint a - sint b) \<Longrightarrow> sint (a - b :: go_int) = sint a - sint b"
  by (simp add: in_go_int_range_def sint_word_diff signed_take_bit_int_eq_self)

lemma sint_mult_in_range:
  "in_go_int_range (sint a * sint b) \<Longrightarrow> sint (a * b :: go_int) = sint a * sint b"
  by (simp add: in_go_int_range_def sint_word_mult signed_take_bit_int_eq_self)

subsection \<open>Options as short lists\<close>

lemma opt_list_simps [simp, go_eval]:
  "opt_list None = []" "opt_list (Some x) = [x]"
  by (simp_all add: opt_list_def)

lemma length_opt_list_le [simp]: "length (opt_list r) \<le> 1"
  by (cases r) simp_all

lemma set_opt_list [simp]: "set (opt_list r) = set_option r"
  by (cases r) simp_all

lemma opt_list_eq_Nil_iff [simp]: "opt_list r = [] \<longleftrightarrow> r = None"
  by (cases r) simp_all

subsection \<open>Lists\<close>

lemma concat_map_opt_list_Nil_iff:
  "concat (map (\<lambda>x. opt_list (f x)) xs) = [] \<longleftrightarrow> (\<forall>x\<in>set xs. f x = None)"
  by (induction xs) simp_all

lemma length_concat_map_opt_list_le:
  "length (concat (map (\<lambda>x. opt_list (f x)) xs)) \<le> length xs"
proof (induction xs)
  case Nil
  then show ?case by simp
next
  case (Cons x xs)
  have "length (opt_list (f x)) \<le> 1" by (rule length_opt_list_le)
  with Cons.IH show ?case by simp
qed

end
