(* ===== verification/Go_Lib.thy ===== *)
theory Go_Lib
  imports Go_Prelude
begin

text \<open>
  Models of the Go library functions that \<open>src/utils/validator.go\<close> and
  \<open>src/utils/pagination.go\<close> call: \<open>lo.Contains\<close>, \<open>filepath.Ext\<close>,
  \<open>strings.Join\<close>, the verbs \<open>%d\<close> and \<open>%f\<close> of \<open>fmt.Sprintf\<close> and
  \<open>strconv.Atoi\<close>. They are not code of this repository; each is written from the
  documented behaviour of the library (and its source in the Go distribution), so that the
  component models can call them and the witnesses can evaluate them.
\<close>

subsection \<open>\<open>lo.Contains\<close>\<close>

definition lo_contains :: "'a list \<Rightarrow> 'a \<Rightarrow> bool" where
  "lo_contains xs x \<longleftrightarrow> (\<exists>y\<in>set xs. y = x)"

subsection \<open>\<open>filepath.Ext\<close> (Unix separator)\<close>

text \<open>
  \<^verbatim>\<open>for i := len(path) - 1; i >= 0 && !os.IsPathSeparator(path[i]); i-- {
    if path[i] == '.' { return path[i:] } }
return ""\<close>
  The scan from the end runs over the reversed path; \<open>acc\<close> holds the characters
  already passed, that is the suffix after position \<open>i\<close>.
\<close>

fun ext_scan :: "string \<Rightarrow> string \<Rightarrow> string" where
  "ext_scan [] acc = []"
| "ext_scan (c # cs) acc =
     (if c = CHR ''/'' then [] else if c = CHR ''.'' then c # acc else ext_scan cs (c # acc))"

definition filepath_ext :: "string \<Rightarrow> string" where
  "filepath_ext path = ext_scan (rev path) []"

subsection \<open>\<open>strings.Join\<close>\<close>

fun strings_join :: "string list \<Rightarrow> string \<Rightarrow> string" where
  "strings_join [] sep = []"
| "strings_join [x] sep = x"
| "strings_join (x # y # xs) sep = x @ sep @ strings_join (y # xs) sep"

subsection \<open>\<open>fmt.Sprintf\<close>: the verbs \<open>%d\<close> and \<open>%f\<close>\<close>

text \<open>Decimal digits, least significant first.\<close>

fun digits_rev :: "nat \<Rightarrow> string" where
  "digits_rev n =
     (if n < 10 then [''0123456789'' ! n]
      else ''0123456789'' ! (n mod 10) # digits_rev (n div 10))"

definition show_nat :: "nat \<Rightarrow> string" where
  "show_nat n = rev (digits_rev n)"

text \<open>\<open>%d\<close> of a Go \<open>int\<close>: a minus sign for negative values, no padding.\<close>

definition show_int :: "int \<Rightarrow> string" where
  "show_int v = (if v < 0 then CHR ''-'' # show_nat (nat (- v)) else show_nat (nat v))"

text \<open>
  \<open>%f\<close> prints six decimals, rounding the exact value half to even
  (\<open>strconv.FormatFloat(f, 'f', 6, 64)\<close>); the six fraction digits, leading zeros
  included, are those of \<open>1000000 + frac\<close> after its leading \<open>1\<close>. A \<open>float64\<close> is modelled by the rational
  number it denotes (see the root theory for what that leaves out).
\<close>

definition round_half_even :: "rat \<Rightarrow> int" where
  "round_half_even q =
     (let (n, d) = quotient_of q; f = n div d; r = n - f * d
      in if 2 * r < d then f else if d < 2 * r then f + 1 else if even f then f else f + 1)"

definition format_f :: "rat \<Rightarrow> string" where
  "format_f q =
     (let m = nat (round_half_even (\<bar>q\<bar> * 1000000))
      in (if q < 0 then ''-'' else []) @ show_nat (m div 1000000) @ ''.'' @
         tl (show_nat (1000000 + m mod 1000000)))"

subsection \<open>\<open>strconv.Atoi\<close>\<close>

text \<open>
  Base 10, an optional sign, at least one digit, no underscores, and the value in the
  range of \<open>int\<close>; anything else is a syntax or range error, here \<open>None\<close>.
\<close>

definition digit_val :: "char \<Rightarrow> nat option" where
  "digit_val c = (let n = (of_char c :: nat) in if 48 \<le> n \<and> n < 58 then Some (n - 48) else None)"

fun parse_digits :: "nat \<Rightarrow> string \<Rightarrow> nat option" where
  "parse_digits acc [] = Some acc"
| "parse_digits acc (c # cs) =
     (case digit_val c of None \<Rightarrow> None | Some d \<Rightarrow> parse_digits (10 * acc + d) cs)"

definition split_sign :: "string \<Rightarrow> bool \<times> string" where
  "split_sign s =
     (case s of [] \<Rightarrow> (False, [])
      | c # r \<Rightarrow> if c = CHR ''-'' then (True, r) else if c = CHR ''+'' then (False, r) else (False, s))"

definition strconv_atoi :: "string \<Rightarrow> go_int option" where
  "strconv_atoi s =
     (let (neg, ds) = split_sign s
      in if ds = [] then None
         else (case parse_digits 0 ds of
                 None \<Rightarrow> None
               | Some n \<Rightarrow>
                   (let v = (if neg then - int n else int n)
                    in if in_go_int_range v then Some (word_of_int v) else None)))"

text \<open>The same reading without the range check, into an unbounded integer.\<close>

definition parse_int :: "string \<Rightarrow> int option" where
  "parse_int s =
     (let (neg, ds) = split_sign s
      in if ds = [] then None
         else map_option (\<lambda>n. if neg then - int n else int n) (parse_digits 0 ds))"

subsection \<open>\<open>stringy.New(s).SnakeCase("?", "").ToLower()\<close>\<close>

text \<open>
  The field-name normaliser of the third-party package \<open>github.com/gobeam/stringy\<close>:
  a space is put between a lower-case and an upper-case letter (the regular expression
  \<open>([a-z])([A-Z])\<close> replaced by \<open>"$1 $2"\<close>), the words are re-joined by single
  spaces (\<open>strings.Fields\<close>), the replacer removes \<open>?\<close> (the rule pair passed by the
  caller) and turns \<open>.\<close>, \<open>_\<close>, \<open>-\<close> into spaces, the resulting words are joined by
  \<open>_\<close>, and \<open>ToLower\<close> lowers ASCII letters.
\<close>

definition is_upper :: "char \<Rightarrow> bool" where
  "is_upper c \<longleftrightarrow> 65 \<le> (of_char c :: nat) \<and> (of_char c :: nat) \<le> 90"

definition is_lower :: "char \<Rightarrow> bool" where
  "is_lower c \<longleftrightarrow> 97 \<le> (of_char c :: nat) \<and> (of_char c :: nat) \<le> 122"

definition to_lower_char :: "char \<Rightarrow> char" where
  "to_lower_char c =
     (if is_upper c then ''abcdefghijklmnopqrstuvwxyz'' ! (of_char c - 65) else c)"

definition strings_to_lower :: "string \<Rightarrow> string" where
  "strings_to_lower s = map to_lower_char s"

fun split_camel :: "string \<Rightarrow> string" where
  "split_camel (a # b # cs) =
     (if is_lower a \<and> is_upper b then a # CHR '' '' # split_camel (b # cs) else a # split_camel (b # cs))"
| "split_camel cs = cs"

definition is_space :: "char \<Rightarrow> bool" where
  "is_space c \<longleftrightarrow> c \<in> {CHR '' '', CHR 0x09, CHR 0x0A, CHR 0x0B, CHR 0x0C, CHR 0x0D}"

fun fields_acc :: "string \<Rightarrow> string \<Rightarrow> string list" where
  "fields_acc [] cur = (if cur = [] then [] else [rev cur])"
| "fields_acc (c # cs) cur =
     (if is_space c then (if cur = [] then fields_acc cs [] else rev cur # fields_acc cs [])
      else fields_acc cs (c # cur))"

definition strings_fields :: "string \<Rightarrow> string list" where
  "strings_fields s = fields_acc s []"

definition snake_rule :: "char \<Rightarrow> string" where
  "snake_rule c =
     (if c = CHR ''?'' then [] else if c \<in> {CHR ''.'', CHR ''_'', CHR ''-''} then '' '' else [c])"

definition snake_case_lower :: "string \<Rightarrow> string" where
  "snake_case_lower s =
     strings_to_lower
       (strings_join (strings_fields (concat (map snake_rule
          (strings_join (strings_fields (split_camel s)) '' '')))) ''_'')"

declare digits_rev.simps [simp del]

lemmas go_lib_defs [go_eval] = filepath_ext_def show_nat_def show_int_def format_f_def
  strconv_atoi_def parse_int_def split_sign_def digit_val_def lo_contains_def in_go_int_range_def digits_rev.simps
  is_upper_def is_lower_def to_lower_char_def strings_to_lower_def is_space_def strings_fields_def
  snake_rule_def snake_case_lower_def

lemma round_half_even_of_int [go_eval]: "round_half_even (of_int k) = k"
  by (simp add: round_half_even_def quotient_of_int)

lemma round_half_even_numeral [go_eval]: "round_half_even (numeral n) = numeral n"
  using round_half_even_of_int [of "numeral n"] by simp

subsection \<open>\<open>filepath.Ext\<close>\<close>

lemma ext_scan_skip:
  "CHR ''.'' \<notin> set ys \<Longrightarrow> CHR ''/'' \<notin> set ys \<Longrightarrow> ext_scan (ys @ zs) acc = ext_scan zs (rev ys @ acc)"
  by (induction ys arbitrary: acc) auto

lemma ext_scan_suffix: "\<exists>pre. rev cs @ acc = pre @ ext_scan cs acc"
proof (induction cs arbitrary: acc)
  case Nil
  then show ?case by simp
next
  case (Cons c cs)
  obtain pre where "rev cs @ c # acc = pre @ ext_scan cs (c # acc)"
    using Cons.IH by blast
  then show ?case by (auto intro: exI [of _ "rev cs @ [c] @ acc"] exI [of _ "rev cs"])
qed

lemma ext_scan_shape:
  "CHR ''.'' \<notin> set acc \<Longrightarrow> CHR ''/'' \<notin> set acc \<Longrightarrow>
   ext_scan cs acc = [] \<or> (\<exists>e. ext_scan cs acc = CHR ''.'' # e \<and> CHR ''.'' \<notin> set e \<and> CHR ''/'' \<notin> set e)"
  by (induction cs arbitrary: acc) auto


lemma filepath_ext_append_dot:
  assumes "CHR ''.'' \<notin> set e" and "CHR ''/'' \<notin> set e"
  shows "filepath_ext (base @ CHR ''.'' # e) = CHR ''.'' # e"
proof -
  have "rev (base @ CHR ''.'' # e) = rev e @ CHR ''.'' # rev base" by simp
  then show ?thesis using assms by (simp add: filepath_ext_def ext_scan_skip)
qed


theorem filepath_ext_shape:
  "filepath_ext p = [] \<or>
   (\<exists>e. filepath_ext p = CHR ''.'' # e \<and> CHR ''.'' \<notin> set e \<and> CHR ''/'' \<notin> set e)"
  using ext_scan_shape [of "[]" "rev p"] by (simp add: filepath_ext_def)


theorem filepath_ext_suffix: "\<exists>pre. p = pre @ filepath_ext p"
  using ext_scan_suffix [of "rev p" "[]"] by (simp add: filepath_ext_def)

subsection \<open>Decimal printing and \<open>strconv.Atoi\<close>\<close>

lemma digit_val_digit: "d < 10 \<Longrightarrow> digit_val (''0123456789'' ! d) = Some d"
  by (auto simp: digit_val_def numeral_eq_Suc less_Suc_eq)

lemma parse_digits_append:
  "parse_digits acc (xs @ ys) = (case parse_digits acc xs of None \<Rightarrow> None | Some a \<Rightarrow> parse_digits a ys)"
  by (induction xs arbitrary: acc) (auto split: option.split)

lemma parse_digits_digits_rev:
  "parse_digits acc (rev (digits_rev n)) = Some (acc * 10 ^ length (digits_rev n) + n)"
proof (induction n arbitrary: acc rule: digits_rev.induct)
  case (1 n)
  show ?case
  proof (cases "n < 10")
    case True
    then show ?thesis by (simp add: digits_rev.simps digit_val_digit)
  next
    case False
    let ?k = "length (digits_rev (n div 10))"
    have IH: "parse_digits acc (rev (digits_rev (n div 10))) = Some (acc * 10 ^ ?k + n div 10)"
      using "1.IH" False by blast
    have "10 * (acc * 10 ^ ?k + n div 10) + n mod 10 = acc * (10 * 10 ^ ?k) + n"
      by (simp add: algebra_simps)
    with False IH show ?thesis
      by (simp add: digits_rev.simps [of n] parse_digits_append digit_val_digit)
  qed
qed

lemma digits_rev_digits: "set (digits_rev n) \<subseteq> set ''0123456789''"
proof (induction n rule: digits_rev.induct)
  case (1 n)
  have "''0123456789'' ! (n mod 10) \<in> set ''0123456789''"
    by (rule nth_mem) simp
  moreover have "n < 10 \<Longrightarrow> ''0123456789'' ! n \<in> set ''0123456789''"
    by (rule nth_mem) simp
  ultimately show ?case using "1.IH" by (auto simp: digits_rev.simps [of n])
qed

lemma digits_rev_nonempty: "digits_rev n \<noteq> []"
  by (simp add: digits_rev.simps [of n])

lemma split_sign_show_nat: "split_sign (show_nat n) = (False, show_nat n)"
proof -
  obtain c cs where cs: "show_nat n = c # cs"
    using digits_rev_nonempty [of n] by (cases "show_nat n") (auto simp: show_nat_def)
  then have "c \<in> set ''0123456789''"
    using digits_rev_digits [of n] by (auto simp: show_nat_def dest: arg_cong [of _ _ set])
  with cs show ?thesis by (auto simp: split_sign_def)
qed

lemma parse_show_nat: "parse_digits 0 (show_nat n) = Some n"
  by (simp add: show_nat_def parse_digits_digits_rev)

lemma show_nat_nonempty: "show_nat n \<noteq> []"
  by (simp add: show_nat_def digits_rev_nonempty)

lemma strconv_atoi_parse_int:
  "strconv_atoi s =
     (case parse_int s of None \<Rightarrow> None | Some v \<Rightarrow> if in_go_int_range v then Some (word_of_int v) else None)"
  by (simp add: strconv_atoi_def parse_int_def split: prod.split option.split)

lemma parse_int_show_int [simp]: "parse_int (show_int v) = Some v"
proof (cases "v < 0")
  case True
  have "split_sign (show_int v) = (True, show_nat (nat (- v)))"
    using True by (simp add: show_int_def split_sign_def)
  with True show ?thesis by (simp add: parse_int_def parse_show_nat show_nat_nonempty)
next
  case False
  have "split_sign (show_int v) = (False, show_nat (nat v))"
    using False by (simp add: show_int_def split_sign_show_nat)
  with False show ?thesis by (simp add: parse_int_def parse_show_nat show_nat_nonempty)
qed

theorem strconv_atoi_show_int:
  assumes "in_go_int_range v"
  shows "strconv_atoi (show_int v) = Some (word_of_int v)"
  using assms by (simp add: strconv_atoi_parse_int)

lemma show_nat_chars: "set (show_nat n) \<subseteq> set ''0123456789''"
  using digits_rev_digits [of n] by (simp add: show_nat_def)

lemma x_notin_show_int [simp]: "CHR ''x'' \<notin> set (show_int v)"
  using show_nat_chars [of "nat v"] show_nat_chars [of "nat (- v)"] by (auto simp: show_int_def)

subsection \<open>Lower-casing\<close>

lemma to_lower_char_not_upper: "\<not> is_upper (to_lower_char c)"
proof (cases "is_upper c")
  case True
  have l: "length ''abcdefghijklmnopqrstuvwxyz'' = 26" by simp
  from True have "(of_char c :: nat) - 65 < 26" unfolding is_upper_def by linarith
  then have "of_char c - 65 < length ''abcdefghijklmnopqrstuvwxyz''"
    by (simp only: l)
  then have "''abcdefghijklmnopqrstuvwxyz'' ! (of_char c - 65) \<in> set ''abcdefghijklmnopqrstuvwxyz''"
    by (rule nth_mem)
  moreover have "\<forall>x \<in> set ''abcdefghijklmnopqrstuvwxyz''. \<not> is_upper x"
    by (simp add: is_upper_def)
  ultimately show ?thesis using True by (auto simp: to_lower_char_def)
next
  case False
  then show ?thesis by (simp add: to_lower_char_def)
qed

end
