(* ===== verification/File_Rule.thy ===== *)
theory File_Rule
  imports Go_Lib
begin

text \<open>
  The data types of \<open>src/utils/validator.go\<close> (\<open>ErrorResponse\<close>, \<open>ImageResolution\<close>,
  \<open>ValidateFile\<close>), the uploaded-file handle it reads (\<open>multipart.FileHeader\<close>), and the
  two checks of the file rule checker, \<open>Rule.File\<close> and \<open>Rule.Resolution\<close>, behind the
  interface \<open>rule\<close> that \<open>NewRule\<close> returns. \<open>Rule.Resolution\<close> opens the file; the
  opens and closes it performs are recorded as a trace of \<open>io_event\<close>s, and a Go panic is
  the left value of its result.
\<close>

subsection \<open>Data\<close>

record error_response =
  failed_field :: string
  tag :: string
  "value" :: string
  message :: string

record image_resolution =
  ir_width :: int
  ir_height :: int

record validate_file =
  vf_field :: string
  vf_is_required :: bool
  vf_extension :: "string list"
  vf_size :: rat
  vf_image_resolution :: "image_resolution option"

text \<open>
  What \<open>fileHeader.Open()\<close> gives. \<open>Handle cfg\<close>: the file opened, and
  \<open>image.DecodeConfig\<close> reads the width and height \<open>cfg\<close> from its header bytes
  (\<open>None\<close>: not a registered image format, or a corrupt header). When opening fails,
  \<open>Open\<close> returns either an untyped \<open>nil\<close> interface (\<open>Nil_interface\<close>: the
  shared temporary-file path of \<open>mime/multipart\<close>) or a typed nil \<open>*os.File\<close>
  (\<open>Nil_os_file\<close>: the \<open>os.Open\<close> path), whose \<open>Read\<close> and \<open>Close\<close> return
  \<open>os.ErrInvalid\<close> instead of panicking.
\<close>

datatype file_handle = Handle "(int \<times> int) option" | Nil_interface | Nil_os_file

record file_header =
  fh_filename :: string
  fh_size :: int
  fh_open :: file_handle

datatype io_event = Open_file string | Close_file string

text \<open>The result of a call that may panic: \<open>Inl\<close> is the panic message.\<close>

type_synonym 'a go_result = "string + 'a"

definition nil_deref_panic :: string where
  "nil_deref_panic = ''runtime error: invalid memory address or nil pointer dereference''"

subsection \<open>\<open>Rule.File\<close>\<close>

text \<open>\<open>var errorElements ErrorResponse; errorElements.FailedField = fieldName\<close>\<close>

definition error_elements :: "string \<Rightarrow> error_response" where
  "error_elements fieldName = \<lparr>failed_field = fieldName, tag = [], value = [], message = []\<rparr>"

definition rule_file :: "string \<Rightarrow> file_header \<Rightarrow> string list \<Rightarrow> rat \<Rightarrow> error_response option" where
  "rule_file fieldName fileHeader allowExtension maxSize =
     (let fileExtension = filepath_ext (fh_filename fileHeader)
      in if \<not> lo_contains allowExtension fileExtension
         then Some ((error_elements fieldName)\<lparr>tag := ''file_extension'',
                                            value := strings_join allowExtension '', ''\<rparr>)
         else (let maxBytes = maxSize * (1024 * 1024)
               in if maxBytes < of_int (fh_size fileHeader)
                  then Some ((error_elements fieldName)\<lparr>tag := ''file_size'', value := format_f maxBytes\<rparr>)
                  else None))"

subsection \<open>\<open>Rule.Resolution\<close>\<close>

definition resolution_error :: "string \<Rightarrow> int \<Rightarrow> int \<Rightarrow> error_response" where
  "resolution_error fieldName imageWidth imageHeight =
     (error_elements fieldName)\<lparr>tag := ''resolution'',
                              value := show_int imageWidth @ ''x'' @ show_int imageHeight\<rparr>"

text \<open>
  \<^verbatim>\<open>file, _ := fileHeader.Open(); defer file.Close()
image, _, err := image.DecodeConfig(file)\<close>
  The error of \<open>Open\<close> is dropped. On a nil interface, \<open>DecodeConfig\<close> wraps it in a
  \<open>bufio.Reader\<close> whose first \<open>Read\<close> dereferences nil: a panic. On a typed nil
  \<open>*os.File\<close>, the read fails and the decode error is reported as a violation.
\<close>

definition rule_resolution ::
  "string \<Rightarrow> file_header \<Rightarrow> int \<Rightarrow> int \<Rightarrow> io_event list \<times> error_response option go_result" where
  "rule_resolution fieldName fileHeader imageWidth imageHeight =
     (let err = resolution_error fieldName imageWidth imageHeight
      in case fh_open fileHeader of
           Nil_interface \<Rightarrow> ([], Inl nil_deref_panic)
         | Nil_os_file \<Rightarrow> ([], Inr (Some err))
         | Handle cfg \<Rightarrow>
             ([Open_file (fh_filename fileHeader), Close_file (fh_filename fileHeader)],
              Inr (case cfg of
                     None \<Rightarrow> Some err
                   | Some (w, h) \<Rightarrow> if w \<noteq> imageWidth \<or> h \<noteq> imageHeight then Some err else None)))"

subsection \<open>The interface \<open>rule\<close> and \<open>NewRule\<close>\<close>

record rule_ops =
  rule_file_op :: "string \<Rightarrow> file_header \<Rightarrow> string list \<Rightarrow> rat \<Rightarrow> error_response option"
  rule_resolution_op ::
    "string \<Rightarrow> file_header \<Rightarrow> int \<Rightarrow> int \<Rightarrow> io_event list \<times> error_response option go_result"

definition new_rule :: rule_ops where
  "new_rule = \<lparr>rule_file_op = rule_file, rule_resolution_op = rule_resolution\<rparr>"

text \<open>The byte threshold of \<open>Rule.File\<close>: \<open>maxSize * (1024 * 1024)\<close>.\<close>

abbreviation size_threshold :: "rat \<Rightarrow> rat" where
  "size_threshold maxSize \<equiv> maxSize * (1024 * 1024)"

subsection \<open>Reading the resolution value back\<close>

text \<open>A client's reading of the value \<open>"WxH"\<close> of a resolution error: the integer before
  the first \<open>x\<close> and the integer after it.\<close>

definition parse_resolution :: "string \<Rightarrow> (int \<times> int) option" where
  "parse_resolution s =
     (case parse_int (takeWhile (\<lambda>c. c \<noteq> CHR ''x'') s) of
        None \<Rightarrow> None
      | Some w \<Rightarrow> map_option (Pair w) (parse_int (drop 1 (dropWhile (\<lambda>c. c \<noteq> CHR ''x'') s))))"

subsection \<open>Properties of the two checks\<close>

lemma rule_file_field: "rule_file f h allow sz = Some e \<Longrightarrow> failed_field e = f"
  by (auto simp: rule_file_def Let_def error_elements_def split: if_splits)

lemma rule_file_None_iff:
  "rule_file f h allow sz = None \<longleftrightarrow>
     filepath_ext (fh_filename h) \<in> set allow \<and> of_int (fh_size h) \<le> size_threshold sz"
  by (auto simp: rule_file_def Let_def lo_contains_def)

text \<open>C7: Rule.File rejects a file whose extension is not in the allow-list with one file_extension error whose value is the allow-list joined by comma and space.\<close>

theorem rule_file_extension_rejected:
  assumes "filepath_ext (fh_filename h) \<notin> set allow"
  shows "rule_file f h allow sz =
           Some \<lparr>failed_field = f, tag = ''file_extension'', value = strings_join allow '', '', message = []\<rparr>"
  using assms by (simp add: rule_file_def lo_contains_def error_elements_def)

text \<open>C8: For an allowed extension, Rule.File rejects the file with a file_size error carrying the byte threshold printed by %f exactly when its size exceeds maxSize times 1024 times 1024; a size equal to the threshold passes.\<close>

theorem rule_file_size:
  assumes "filepath_ext (fh_filename h) \<in> set allow"
  shows "rule_file f h allow sz =
           (if size_threshold sz < of_int (fh_size h)
            then Some \<lparr>failed_field = f, tag = ''file_size'', value = format_f (size_threshold sz), message = []\<rparr>
            else None)"
  using assms by (simp add: rule_file_def lo_contains_def error_elements_def)

lemma rule_resolution_cases:
  "rule_resolution f h w ht =
     (case fh_open h of
        Handle (Some (iw, ih)) \<Rightarrow>
          ([Open_file (fh_filename h), Close_file (fh_filename h)],
           Inr (if iw = w \<and> ih = ht then None else Some (resolution_error f w ht)))
      | Handle None \<Rightarrow> ([Open_file (fh_filename h), Close_file (fh_filename h)], Inr (Some (resolution_error f w ht)))
      | Nil_os_file \<Rightarrow> ([], Inr (Some (resolution_error f w ht)))
      | Nil_interface \<Rightarrow> ([], Inl nil_deref_panic))"
  by (auto simp: rule_resolution_def split: file_handle.split option.split)

lemma rule_resolution_io:
  "fst (rule_resolution f h w ht) = [] \<or>
   fst (rule_resolution f h w ht) = [Open_file (fh_filename h), Close_file (fh_filename h)]"
  by (simp add: rule_resolution_cases split: file_handle.split option.split)

lemma rule_resolution_panic_iff:
  "(\<exists>m. snd (rule_resolution f h w ht) = Inl m) \<longleftrightarrow> fh_open h = Nil_interface"
  by (simp add: rule_resolution_cases split: file_handle.split option.split)

lemma rule_resolution_field:
  "snd (rule_resolution f h w ht) = Inr (Some e) \<Longrightarrow> failed_field e = f \<and> tag e = ''resolution''"
  by (auto simp: rule_resolution_cases resolution_error_def error_elements_def
      split: file_handle.splits option.splits if_splits)


text \<open>C9: For an upload whose header decodes to a width and height, Rule.Resolution opens and closes the file once and reports a resolution error with value WxH of the requested pair exactly when either dimension differs.\<close>

theorem rule_resolution_decoded:
  assumes "fh_open h = Handle (Some (iw, ih))"
  shows "rule_resolution f h w ht =
           ([Open_file (fh_filename h), Close_file (fh_filename h)],
            Inr (if iw = w \<and> ih = ht then None else Some (resolution_error f w ht)))"
  using assms by (simp add: rule_resolution_cases)


text \<open>C22: Rule.File accepts an upload whose name ends in a declared extension (a dot followed by characters other than dot and slash) and whose size is within the threshold.\<close>

theorem rule_file_accepts_declared_extension:
  assumes "fh_filename h = base @ CHR ''.'' # xs"
    and "CHR ''.'' \<notin> set xs" and "CHR ''/'' \<notin> set xs"
    and "CHR ''.'' # xs \<in> set allow"
    and "of_int (fh_size h) \<le> size_threshold sz"
  shows "rule_file f h allow sz = None"
  using assms by (simp add: rule_file_None_iff filepath_ext_append_dot)

text \<open>C27: The value of a resolution error, the requested width and height printed as WxH with %d, reads back as exactly that pair, negative numbers included: the printed value is unambiguous.\<close>

theorem resolution_error_roundtrip: "parse_resolution (value (resolution_error f w h)) = Some (w, h)"
  by (simp add: parse_resolution_def resolution_error_def error_elements_def takeWhile_append
      dropWhile_append)

end
