(* ===== verification/Validator.thy ===== *)
theory Validator
  imports File_Rule
begin

text \<open>
  The validation orchestrator \<open>ValidateStruct[T]\<close> of \<open>src/utils/validator.go\<close>. The
  request context \<open>*fiber.Ctx\<close> is a record holding what the handler reads from it (the
  result of \<open>BodyParser\<close>, the results of \<open>FormFile\<close>) and the request-local map it
  writes (\<open>Locals\<close>); the struct-tag validator of \<open>go-playground/validator\<close> is the
  interface \<open>field_validator\<close>; the loop over the declared file rules threads a record
  \<open>vstate\<close> (the error list and the trace of file opens and closes). The handler ends in
  exactly one of four ways, the constructors of \<open>outcome\<close>.
\<close>

subsection \<open>The request context and the field validator\<close>

record field_error =
  fe_field :: string
  fe_tag :: string
  fe_param :: string

text \<open>
  \<open>validator.New().Struct(body)\<close>: \<open>Inr errs\<close> is a \<open>nil\<close> error (\<open>errs = []\<close>) or
  a \<open>validator.ValidationErrors\<close> value; \<open>Inl msg\<close> is any other error (an
  \<open>*InvalidValidationError\<close>, when the target type is not a struct).
\<close>

type_synonym 't field_validator = "'t \<Rightarrow> string + field_error list"

record 't fiber_ctx =
  ctx_body :: "string + 't"
  ctx_form_file :: "string \<Rightarrow> file_header option \<times> string option"
  ctx_locals :: "string \<Rightarrow> 't option"

text \<open>
  \<open>Fiber_error status msg\<close>: the handler returns \<open>fiber.NewError(status, msg)\<close>;
  \<open>Validate_failed errs\<close>: it writes \<open>response.ValidateFailed(errors, "")\<close> as the
  response; \<open>Next c\<close>: it stores the body with \<open>c.Locals("request", body)\<close> and calls
  \<open>c.Next()\<close> on the updated context; \<open>Panic msg\<close>: a run-time panic.
\<close>

datatype 't outcome =
    Fiber_error nat string
  | Validate_failed "error_response list"
  | Next "'t fiber_ctx"
  | Panic string

record vstate =
  vs_errors :: "error_response list"
  vs_io :: "io_event list"

subsection \<open>The handler\<close>

definition struct_error :: "field_error \<Rightarrow> error_response" where
  "struct_error e =
     \<lparr>failed_field = snake_case_lower (fe_field e), tag = fe_tag e, value = fe_param e, message = []\<rparr>"

definition add_error :: "vstate \<Rightarrow> error_response \<Rightarrow> vstate" where
  "add_error st e = st\<lparr>vs_errors := vs_errors st @ [e]\<rparr>"

definition required_error :: "string \<Rightarrow> error_response" where
  "required_error fld = \<lparr>failed_field = fld, tag = ''required'', value = [], message = []\<rparr>"

definition copy_error :: "string \<Rightarrow> error_response \<Rightarrow> error_response" where
  "copy_error fld e = \<lparr>failed_field = fld, tag = tag e, value = value e, message = []\<rparr>"

text \<open>One iteration of \<open>for _, file := range *files\<close> (lines 58--89).\<close>

definition file_step ::
  "rule_ops \<Rightarrow> 't fiber_ctx \<Rightarrow> validate_file \<Rightarrow> vstate \<Rightarrow> 't outcome option \<times> vstate" where
  "file_step rule c file st =
     (let (fileHeader, err) = ctx_form_file c (vf_field file);
          st1 = (if vf_is_required file \<and> fileHeader = None
                 then add_error st (required_error (vf_field file)) else st)
      in case fileHeader of
           None \<Rightarrow> (None, st1)
         | Some fh \<Rightarrow>
             (case err of
                Some e \<Rightarrow> (Some (Fiber_error 500 (''File '' @ vf_field file @ '' error: '' @ e)), st1)
              | None \<Rightarrow>
                  (case rule_file_op rule (vf_field file) fh (vf_extension file) (vf_size file) of
                     Some errorFile \<Rightarrow> (None, add_error st1 (copy_error (vf_field file) errorFile))
                   | None \<Rightarrow>
                       (case vf_image_resolution file of
                          None \<Rightarrow> (None, st1)
                        | Some r \<Rightarrow>
                            (let (io, res) = rule_resolution_op rule (vf_field file) fh
                                               (ir_width r) (ir_width r);
                                 st2 = st1\<lparr>vs_io := vs_io st1 @ io\<rparr>
                             in case res of
                                  Inl p \<Rightarrow> (Some (Panic p), st2)
                                | Inr None \<Rightarrow> (None, st2)
                                | Inr (Some errorResolution) \<Rightarrow>
                                    (None, add_error st2 (copy_error (vf_field file) errorResolution)))))))"

text \<open>The loop; a \<open>return\<close> inside it (\<open>Some\<close>) ends the handler.\<close>

fun file_loop ::
  "rule_ops \<Rightarrow> 't fiber_ctx \<Rightarrow> validate_file list \<Rightarrow> vstate \<Rightarrow> 't outcome option \<times> vstate" where
  "file_loop rule c [] st = (None, st)"
| "file_loop rule c (file # files) st =
     (case file_step rule c file st of
        (None, st') \<Rightarrow> file_loop rule c files st'
      | (Some ret, st') \<Rightarrow> (Some ret, st'))"

definition type_assertion_panic :: string where
  "type_assertion_panic =
     ''interface conversion: error is *validator.InvalidValidationError, not validator.ValidationErrors''"

text \<open>
  \<open>ValidateStruct[T](c, files)\<close>, with the rule implementation as a parameter; the
  pointer \<open>files\<close> is \<open>None\<close> when it is \<open>nil\<close>. The second component is the trace of
  file opens and closes the call performed.
\<close>

definition validate_struct_with ::
  "rule_ops \<Rightarrow> 't field_validator \<Rightarrow> 't fiber_ctx \<Rightarrow> validate_file list option \<Rightarrow>
   't outcome \<times> io_event list" where
  "validate_struct_with rule validate c files =
     (case ctx_body c of
        Inl e \<Rightarrow> (Fiber_error 400 (''Body parser error: '' @ e), [])
      | Inr body \<Rightarrow>
          (case validate body of
             Inl _ \<Rightarrow> (Panic type_assertion_panic, [])
           | Inr errs \<Rightarrow>
               (let st0 = \<lparr>vs_errors = map struct_error errs, vs_io = []\<rparr>;
                    (ret, st) = (case files of
                                   None \<Rightarrow> (None, st0)
                                 | Some fs \<Rightarrow> if fs \<noteq> [] then file_loop rule c fs st0 else (None, st0))
                in case ret of
                     Some r \<Rightarrow> (r, vs_io st)
                   | None \<Rightarrow>
                       if vs_errors st \<noteq> []
                       then (Validate_failed (vs_errors st), vs_io st)
                       else (Next (c\<lparr>ctx_locals := (ctx_locals c)(''request'' \<mapsto> body)\<rparr>), vs_io st))))"

definition validate_struct ::
  "'t field_validator \<Rightarrow> 't fiber_ctx \<Rightarrow> validate_file list option \<Rightarrow> 't outcome \<times> io_event list" where
  "validate_struct = validate_struct_with new_rule"

subsection \<open>State algebra of the loop\<close>

text \<open>A step of the loop only appends to the error list and to the trace.\<close>

definition empty_vstate :: vstate where
  "empty_vstate = \<lparr>vs_errors = [], vs_io = []\<rparr>"

definition vappend :: "vstate \<Rightarrow> vstate \<Rightarrow> vstate" where
  "vappend st d = \<lparr>vs_errors = vs_errors st @ vs_errors d, vs_io = vs_io st @ vs_io d\<rparr>"


subsection \<open>Abstract specification\<close>

text \<open>
  What the design of the validator promises, stated without the loop: a body-parse failure
  is a transport failure; otherwise the violations are the struct-field violations, in the
  validator's order, followed by at most one violation per declared file rule, in the order
  of the rules; the body is accepted exactly when there is none. \<open>spec_file_violation\<close>
  gives the violation of one rule: \<open>required\<close> for an absent required upload, else the
  first failing check among extension, size, and resolution; \<open>target\<close> is the width and
  height the resolution check compares with. \<open>spec_target\<close> is the declared pair, as the
  design intends; \<open>code_target\<close> is what line 80 passes (the width twice).
  \<open>form_ok\<close> excludes the two behaviours the specification does not describe: a
  \<open>FormFile\<close> error returned with a header, and an upload whose \<open>Open\<close> gives a nil
  interface.
\<close>

definition decoded_config :: "file_handle \<Rightarrow> (int \<times> int) option" where
  "decoded_config fh = (case fh of Handle cfg \<Rightarrow> cfg | _ \<Rightarrow> None)"

definition spec_file_violation ::
  "(image_resolution \<Rightarrow> int \<times> int) \<Rightarrow> (string \<Rightarrow> file_header option \<times> string option) \<Rightarrow>
   validate_file \<Rightarrow> error_response option" where
  "spec_file_violation target form f =
     (case fst (form (vf_field f)) of
        None \<Rightarrow> if vf_is_required f then Some (required_error (vf_field f)) else None
      | Some h \<Rightarrow>
          if filepath_ext (fh_filename h) \<notin> set (vf_extension f)
          then Some \<lparr>failed_field = vf_field f, tag = ''file_extension'',
                     value = strings_join (vf_extension f) '', '', message = []\<rparr>
          else if size_threshold (vf_size f) < of_int (fh_size h)
          then Some \<lparr>failed_field = vf_field f, tag = ''file_size'',
                     value = format_f (size_threshold (vf_size f)), message = []\<rparr>
          else (case vf_image_resolution f of
                  None \<Rightarrow> None
                | Some r \<Rightarrow>
                    if decoded_config (fh_open h) = Some (target r) then None
                    else Some (resolution_error (vf_field f) (fst (target r)) (snd (target r)))))"

definition form_ok :: "(string \<Rightarrow> file_header option \<times> string option) \<Rightarrow> validate_file \<Rightarrow> bool" where
  "form_ok form f =
     (case form (vf_field f) of
        (None, _) \<Rightarrow> True
      | (Some h, None) \<Rightarrow> fh_open h \<noteq> Nil_interface
      | (Some _, Some _) \<Rightarrow> False)"

definition code_target :: "image_resolution \<Rightarrow> int \<times> int" where
  "code_target r = (ir_width r, ir_width r)"

definition spec_target :: "image_resolution \<Rightarrow> int \<times> int" where
  "spec_target r = (ir_width r, ir_height r)"

datatype 't validation_outcome = Accepted 't | Rejected "error_response list" | Transport_failure string

definition spec_validate ::
  "(image_resolution \<Rightarrow> int \<times> int) \<Rightarrow> ('t \<Rightarrow> field_error list) \<Rightarrow> 't fiber_ctx \<Rightarrow> validate_file list \<Rightarrow>
   't validation_outcome" where
  "spec_validate target check c files =
     (case ctx_body c of
        Inl e \<Rightarrow> Transport_failure (''Body parser error: '' @ e)
      | Inr body \<Rightarrow>
          (let vs = map struct_error (check body) @
                    concat (map (\<lambda>f. opt_list (spec_file_violation target (ctx_form_file c) f)) files)
           in if vs = [] then Accepted body else Rejected vs))"

fun abs_outcome :: "'t outcome \<Rightarrow> 't validation_outcome option" where
  "abs_outcome (Fiber_error _ m) = Some (Transport_failure m)"
| "abs_outcome (Validate_failed errs) = Some (Rejected errs)"
| "abs_outcome (Next c) = map_option Accepted (ctx_locals c ''request'')"
| "abs_outcome (Panic _) = None"

subsection \<open>Trace and exit predicates\<close>

text \<open>\<open>balanced_io\<close>: every file opened is closed before the next is opened, the
  sequential use that \<open>defer file.Close()\<close> gives; \<open>is_abort\<close>: the outcomes a
  \<open>return\<close> inside the loop can produce.\<close>

fun balanced_io :: "io_event list \<Rightarrow> bool" where
  "balanced_io [] = True"
| "balanced_io (Open_file a # Close_file b # rest) = (a = b \<and> balanced_io rest)"
| "balanced_io _ = False"

fun is_abort :: "'t outcome \<Rightarrow> bool" where
  "is_abort (Fiber_error _ _) = True"
| "is_abort (Panic _) = True"
| "is_abort _ = False"

subsection \<open>A reference definition of the loop\<close>

text \<open>
  The loop read without its threaded state: every rule is checked on its own, from an empty
  state; the loop stops at the first iteration that returns, and its errors and trace are
  those of the iterations up to that one, in order, after the initial ones.
\<close>

definition file_loop_reference ::
  "rule_ops \<Rightarrow> 't fiber_ctx \<Rightarrow> validate_file list \<Rightarrow> vstate \<Rightarrow> 't outcome option \<times> vstate" where
  "file_loop_reference rule c fs st =
     (let steps = map (\<lambda>f. file_step rule c f empty_vstate) fs;
          k = length (takeWhile (\<lambda>s. fst s = None) steps)
      in (if k < length steps then fst (steps ! k) else None,
          vappend st (foldr vappend (map snd (take (Suc k) steps)) empty_vstate)))"

subsection \<open>Well-formedness of errors and of \<open>FormFile\<close> results\<close>

text \<open>
  \<open>file_error_wf fs e\<close>: an error the loop reports names a declared upload field, carries
  one of the four tags of the file checks, and no message. \<open>form_file_consistent\<close>: the
  contract of \<open>c.FormFile\<close> in Fiber (\<open>fasthttp\<close>), which returns either a header or
  an error, never both. \<open>fiber_status\<close> reads the status of a \<open>fiber.NewError\<close>.
\<close>

definition file_tags :: "string list" where
  "file_tags = [''required'', ''file_extension'', ''file_size'', ''resolution'']"

definition file_error_wf :: "validate_file list \<Rightarrow> error_response \<Rightarrow> bool" where
  "file_error_wf fs e \<longleftrightarrow>
     failed_field e \<in> set (map vf_field fs) \<and> tag e \<in> set file_tags \<and> message e = []"

definition form_file_consistent ::
  "(string \<Rightarrow> file_header option \<times> string option) \<Rightarrow> validate_file \<Rightarrow> bool" where
  "form_file_consistent form f = (case form (vf_field f) of (Some _, Some _) \<Rightarrow> False | _ \<Rightarrow> True)"

fun fiber_status :: "'t outcome \<Rightarrow> nat option" where
  "fiber_status (Fiber_error s _) = Some s"
| "fiber_status _ = None"


subsection \<open>Properties of the loop and the handler\<close>

lemma vappend_empty [simp]: "vappend st empty_vstate = st" "vappend empty_vstate d = d"
  by (simp_all add: vappend_def empty_vstate_def)

lemma vappend_assoc [simp]: "vappend (vappend a b) d = vappend a (vappend b d)"
  by (simp add: vappend_def)

lemma add_error_vappend [simp]: "add_error (vappend st d) e = vappend st (add_error d e)"
  by (simp add: add_error_def vappend_def)

lemma io_update_vappend [simp]:
  "(vappend st d)\<lparr>vs_io := vs_io (vappend st d) @ io\<rparr> = vappend st (d\<lparr>vs_io := vs_io d @ io\<rparr>)"
  by (simp add: vappend_def)

lemma file_step_frame:
  "file_step r c f (vappend st d) = (fst (file_step r c f d), vappend st (snd (file_step r c f d)))"
  by (simp add: file_step_def Let_def split: prod.split option.split sum.split)

lemma file_step_state:
  "file_step r c f st = (fst (file_step r c f empty_vstate), vappend st (snd (file_step r c f empty_vstate)))"
  using file_step_frame [of r c f st empty_vstate] by simp

lemma file_loop_frame:
  "file_loop r c fs (vappend st d) = (fst (file_loop r c fs d), vappend st (snd (file_loop r c fs d)))"
proof (induction fs arbitrary: d)
  case Nil
  then show ?case by simp
next
  case (Cons f fs)
  then show ?case by (simp add: file_step_frame split: prod.split option.split)
qed

lemma copy_error_field [simp]: "copy_error f (error_elements f\<lparr>tag := t, value := v\<rparr>) = \<lparr>failed_field = f, tag = t, value = v, message = []\<rparr>"
  by (simp add: copy_error_def error_elements_def)

lemma copy_resolution_error [simp]: "copy_error f (resolution_error f w h) = resolution_error f w h"
  by (simp add: copy_error_def resolution_error_def error_elements_def)

lemma file_step_spec:
  assumes "form_ok (ctx_form_file c) f"
  shows "fst (file_step new_rule c f st) = None \<and>
         vs_errors (snd (file_step new_rule c f empty_vstate)) =
           opt_list (spec_file_violation code_target (ctx_form_file c) f)"
  using assms
  by (auto simp: file_step_def new_rule_def rule_file_def rule_resolution_cases Let_def
      spec_file_violation_def form_ok_def code_target_def decoded_config_def lo_contains_def
      add_error_def empty_vstate_def required_error_def
      split: prod.splits option.splits file_handle.splits if_splits)

lemma file_loop_spec:
  assumes "\<forall>f\<in>set fs. form_ok (ctx_form_file c) f"
  shows "fst (file_loop new_rule c fs st) = None \<and>
         vs_errors (snd (file_loop new_rule c fs st)) =
           vs_errors st @ concat (map (\<lambda>f. opt_list (spec_file_violation code_target (ctx_form_file c) f)) fs)"
  using assms
proof (induction fs arbitrary: st)
  case Nil
  then show ?case by simp
next
  case (Cons f fs)
  define d where "d = snd (file_step new_rule c f empty_vstate)"
  have spec: "fst (file_step new_rule c f empty_vstate) = None"
    and errs: "vs_errors d = opt_list (spec_file_violation code_target (ctx_form_file c) f)"
    using file_step_spec [of c f] Cons.prems by (simp_all add: d_def)
  have step: "file_step new_rule c f st = (None, vappend st d)"
    using file_step_state [of new_rule c f st] spec by (simp add: d_def)
  with Cons.IH [of "vappend st d"] Cons.prems errs show ?case by (simp add: vappend_def)
qed

text \<open>C1: When every declared upload field is retrievable without a FormFile error and every opened upload yields a handle, the outcome of ValidateStruct, read abstractly, is that of the specification: body-parse failure, or the struct violations followed by at most one violation per file rule in declaration order, accepted exactly when there is none; with the resolution target taken as the width twice, as the code passes it.\<close>

theorem validate_struct_refines_spec:
  assumes "\<forall>f\<in>set fs. form_ok (ctx_form_file c) f"
  shows "abs_outcome (fst (validate_struct (\<lambda>b. Inr (check b)) c (Some fs))) =
         Some (spec_validate code_target check c fs)"
proof (cases "ctx_body c")
  case (Inl e)
  then show ?thesis by (simp add: validate_struct_def validate_struct_with_def spec_validate_def)
next
  case (Inr body)
  let ?st0 = "\<lparr>vs_errors = map struct_error (check body), vs_io = []\<rparr>"
  have loop: "fst (file_loop new_rule c fs ?st0) = None \<and>
         vs_errors (snd (file_loop new_rule c fs ?st0)) =
           map struct_error (check body) @
           concat (map (\<lambda>f. opt_list (spec_file_violation code_target (ctx_form_file c) f)) fs)"
    using file_loop_spec [OF assms] by simp
  show ?thesis
    using Inr loop
    by (auto simp: validate_struct_def validate_struct_with_def spec_validate_def Let_def
        split: prod.split option.split)
qed

lemma balanced_io_append [simp]: "balanced_io xs \<Longrightarrow> balanced_io ys \<Longrightarrow> balanced_io (xs @ ys)"
  by (induction xs rule: balanced_io.induct) auto

lemma balanced_rule_resolution: "rule_resolution f h w ht = (io, res) \<Longrightarrow> balanced_io io"
  using rule_resolution_io [of f h w ht] by auto

lemma file_step_io_balanced:
  assumes "balanced_io (vs_io st)"
  shows "balanced_io (vs_io (snd (file_step new_rule c f st)))"
  using assms
  by (auto dest: balanced_rule_resolution simp: file_step_def new_rule_def add_error_def Let_def split: prod.split option.split sum.split)

lemma file_loop_io_balanced:
  "balanced_io (vs_io st) \<Longrightarrow> balanced_io (vs_io (snd (file_loop new_rule c fs st)))"
proof (induction fs arbitrary: st)
  case Nil
  then show ?case by simp
next
  case (Cons f fs)
  have "balanced_io (vs_io (snd (file_step new_rule c f st)))"
    using Cons.prems by (rule file_step_io_balanced)
  then show ?case using Cons.IH by (auto split: prod.split option.split)
qed

lemma file_loop_io_balanced_from_start:
  "file_loop new_rule c fs \<lparr>vs_errors = errs, vs_io = []\<rparr> = (ret, st) \<Longrightarrow> balanced_io (vs_io st)"
  using file_loop_io_balanced [of "\<lparr>vs_errors = errs, vs_io = []\<rparr>" c fs] by simp

text \<open>C13: Every file ValidateStruct opens is closed before the next is opened and before the handler ends, on every path including early returns and panics.\<close>

theorem validate_struct_io_balanced: "balanced_io (snd (validate_struct check c files))"
  by (auto dest: file_loop_io_balanced_from_start simp: validate_struct_def validate_struct_with_def Let_def
      split: sum.split option.split prod.split)

text \<open>C4: A body-parser failure ends ValidateStruct with a 400 Fiber error carrying Body parser error: and the parser's message, before any rule is evaluated and without opening any file.\<close>

theorem validate_struct_body_error:
  "ctx_body c = Inl e \<Longrightarrow> validate_struct check c files = (Fiber_error 400 (''Body parser error: '' @ e), [])"
  by (simp add: validate_struct_def validate_struct_with_def)

text \<open>C12: If the struct validator returns an error that is not ValidationErrors, the type assertion in ValidateStruct panics.\<close>

theorem validate_struct_invalid_validation:
  "ctx_body c = Inr b \<Longrightarrow> check b = Inl m \<Longrightarrow> validate_struct check c files = (Panic type_assertion_panic, [])"
  by (simp add: validate_struct_def validate_struct_with_def)

lemma file_step_abort: "fst (file_step r c f st) = Some a \<Longrightarrow> is_abort a"
  by (auto simp: file_step_def Let_def split: prod.splits option.splits sum.splits)

lemma file_loop_abort: "fst (file_loop r c fs st) = Some a \<Longrightarrow> is_abort a"
proof (induction fs arbitrary: st)
  case Nil
  then show ?case by simp
next
  case (Cons f fs)
  then show ?case using file_step_abort [of r c f st] by (auto split: prod.splits option.splits)
qed

lemma file_loop_abort_pair: "file_loop r c fs st = (Some a, st') \<Longrightarrow> is_abort a"
  using file_loop_abort [of r c fs st a] by simp

lemma file_loop_errors:
  "vs_errors (snd (file_loop r c fs st)) = vs_errors st @ vs_errors (snd (file_loop r c fs empty_vstate))"
proof -
  have "file_loop r c fs st = (fst (file_loop r c fs empty_vstate), vappend st (snd (file_loop r c fs empty_vstate)))"
    using file_loop_frame [of r c fs st empty_vstate] by simp
  then show ?thesis by (simp add: vappend_def)
qed

lemma file_loop_errors_pair:
  "file_loop r c fs st = (ret, st') \<Longrightarrow> \<exists>d. vs_errors st' = vs_errors st @ d"
  using file_loop_errors [of r c fs st] by auto

text \<open>C2: Whenever ValidateStruct answers with the validation-failed response, its list of errors is non-empty, for any rule implementation.\<close>

theorem validate_struct_rejected_nonempty:
  "fst (validate_struct_with r check c files) = Validate_failed errs \<Longrightarrow> errs \<noteq> []"
  by (auto simp: validate_struct_with_def Let_def dest: file_loop_abort_pair
      split: sum.splits option.splits prod.splits if_splits)

text \<open>C3: Whenever ValidateStruct forwards to the next handler, the body parsed, the field validator reported no violation, and the forwarded context is the request's context with the parsed body stored under the key request and nothing else changed.\<close>

theorem validate_struct_next:
  assumes "fst (validate_struct_with r check c files) = Next c'"
  shows "\<exists>b. ctx_body c = Inr b \<and> check b = Inr [] \<and>
           c' = c\<lparr>ctx_locals := (ctx_locals c)(''request'' \<mapsto> b)\<rparr>"
  using assms
  by (auto simp: validate_struct_with_def Let_def dest: file_loop_abort_pair file_loop_errors_pair
      split: sum.splits option.splits prod.splits if_splits)

text \<open>C5: One iteration of the file-rule loop keeps the errors collected so far and appends at most one error after them, for any rule implementation: the checks of a field are short-circuiting.\<close>

theorem file_step_at_most_one:
  "\<exists>d. vs_errors (snd (file_step r c f st)) = vs_errors st @ d \<and> length d \<le> 1"
proof -
  have "vs_errors (snd (file_step r c f st)) = vs_errors st @ vs_errors (snd (file_step r c f empty_vstate))"
    using file_step_state [of r c f st] by (simp add: vappend_def)
  moreover have "length (vs_errors (snd (file_step r c f empty_vstate))) \<le> 1"
    by (auto simp: file_step_def add_error_def empty_vstate_def Let_def
        split: prod.split option.split sum.split)
  ultimately show ?thesis by blast
qed

text \<open>C6: When FormFile gives no header for a field, the iteration appends exactly one required error if the field is required and nothing otherwise, whatever error FormFile returned with it.\<close>

theorem file_step_absent_upload:
  assumes "fst (ctx_form_file c (vf_field f)) = None"
  shows "file_step r c f st =
           (None, if vf_is_required f then add_error st (required_error (vf_field f)) else st)"
  using assms by (auto simp: file_step_def split: prod.split)

text \<open>C11: If opening an upload that passed the extension and size checks yields a nil interface, the resolution check panics with a nil pointer dereference instead of reporting an error.\<close>

theorem file_step_nil_interface_panics:
  assumes "ctx_form_file c (vf_field f) = (Some h, None)" and "fh_open h = Nil_interface"
    and "rule_file (vf_field f) h (vf_extension f) (vf_size f) = None"
    and "vf_image_resolution f = Some r"
  shows "fst (file_step new_rule c f st) = Some (Panic nil_deref_panic)"
  using assms by (simp add: file_step_def new_rule_def rule_resolution_cases)

text \<open>C10: For a declared resolution whose width and height differ and an uploaded image of exactly that size, the iteration reports a resolution error for the width repeated twice, while the specification reports no violation: the code compares the image with width x width.\<close>

theorem file_step_resolution_uses_width:
  assumes "ctx_form_file c (vf_field f) = (Some h, None)"
    and "rule_file (vf_field f) h (vf_extension f) (vf_size f) = None"
    and "vf_image_resolution f = Some r"
    and "fh_open h = Handle (Some (ir_width r, ir_height r))"
    and "ir_width r \<noteq> ir_height r"
  shows "file_step new_rule c f st =
           (None, add_error (st\<lparr>vs_io := vs_io st @ [Open_file (fh_filename h), Close_file (fh_filename h)]\<rparr>)
                    (resolution_error (vf_field f) (ir_width r) (ir_width r)))
         \<and> spec_file_violation spec_target (ctx_form_file c) f = None"
proof
  show "file_step new_rule c f st =
          (None, add_error (st\<lparr>vs_io := vs_io st @ [Open_file (fh_filename h), Close_file (fh_filename h)]\<rparr>)
                   (resolution_error (vf_field f) (ir_width r) (ir_width r)))"
    using assms by (simp add: file_step_def new_rule_def rule_resolution_cases)
  have "filepath_ext (fh_filename h) \<in> set (vf_extension f) \<and> of_int (fh_size h) \<le> size_threshold (vf_size f)"
    using assms(2) by (simp only: rule_file_None_iff)
  with assms show "spec_file_violation spec_target (ctx_form_file c) f = None"
    by (simp add: spec_file_violation_def spec_target_def decoded_config_def)
qed

text \<open>C14: The field names of the struct-validation errors contain no upper-case ASCII letter.\<close>

theorem struct_error_lower:
  "\<forall>e\<in>set (map struct_error errs). \<forall>ch\<in>set (failed_field e). \<not> is_upper ch"
  by (auto simp: struct_error_def snake_case_lower_def strings_to_lower_def to_lower_char_not_upper)


text \<open>C24: The file-rule loop equals its reference definition: threading the state through the iterations is the same as checking every rule on its own from an empty state, stopping at the first iteration that returns, and concatenating the errors and traces of the iterations up to it.\<close>

theorem file_loop_eq_reference: "file_loop r c fs st = file_loop_reference r c fs st"
proof (induction fs arbitrary: st)
  case Nil
  then show ?case by (simp add: file_loop_reference_def)
next
  case (Cons f fs)
  show ?case
  proof (cases "fst (file_step r c f empty_vstate)")
    case None
    then show ?thesis
      using file_step_state [of r c f st] Cons.IH [of "vappend st (snd (file_step r c f empty_vstate))"]
      by (simp add: file_loop_reference_def Let_def)
  next
    case (Some a)
    then show ?thesis
      using file_step_state [of r c f st] by (simp add: file_loop_reference_def Let_def)
  qed
qed


lemma file_step_errors:
  "vs_errors (snd (file_step r c f st)) = vs_errors st @ vs_errors (snd (file_step r c f empty_vstate))"
  using file_step_state [of r c f st] by (simp add: vappend_def)

lemma file_step_wf:
  assumes "f \<in> set gs"
  shows "list_all (file_error_wf gs) (vs_errors (snd (file_step new_rule c f empty_vstate)))"
proof -
  have "vf_field f \<in> set (map vf_field gs)" using assms by simp
  then show ?thesis
    by (auto simp: file_step_def new_rule_def rule_file_def rule_resolution_cases Let_def
        add_error_def empty_vstate_def required_error_def copy_error_def error_elements_def
        resolution_error_def file_error_wf_def file_tags_def
        split: prod.splits option.splits file_handle.splits if_splits)
qed

lemma file_loop_wf:
  "set fs \<subseteq> set gs \<Longrightarrow> list_all (file_error_wf gs) (vs_errors (snd (file_loop new_rule c fs st)))
     = list_all (file_error_wf gs) (vs_errors st)"
proof (induction fs arbitrary: st)
  case Nil
  then show ?case by simp
next
  case (Cons f fs)
  have "list_all (file_error_wf gs) (vs_errors (snd (file_step new_rule c f st))) =
        list_all (file_error_wf gs) (vs_errors st)"
    using file_step_wf [of f gs c] Cons.prems by (simp add: file_step_errors [of _ _ _ st])
  then show ?case using Cons.IH Cons.prems by (auto split: prod.split option.split)
qed

text \<open>C25: Whenever ValidateStruct answers with the validation-failed response, its errors are the struct-validation errors followed by errors each of which names a declared upload field, carries one of the tags required, file_extension, file_size, resolution, and has no message.\<close>

theorem validate_struct_errors_wf:
  assumes "fst (validate_struct (\<lambda>b. Inr (check b)) c (Some fs)) = Validate_failed errs"
  shows "\<exists>b ds. ctx_body c = Inr b \<and> errs = map struct_error (check b) @ ds \<and>
                list_all (file_error_wf fs) ds"
proof -
  obtain b where b: "ctx_body c = Inr b"
    using assms by (auto simp: validate_struct_def validate_struct_with_def split: sum.splits)
  let ?st0 = "\<lparr>vs_errors = map struct_error (check b), vs_io = []\<rparr>"
  let ?ds = "vs_errors (snd (file_loop new_rule c fs empty_vstate))"
  have errs: "vs_errors (snd (file_loop new_rule c fs ?st0)) = map struct_error (check b) @ ?ds"
    using file_loop_errors [of new_rule c fs ?st0] by simp
  have wf: "list_all (file_error_wf fs) ?ds"
    using file_loop_wf [of fs fs c empty_vstate] by (simp add: empty_vstate_def)
  have "errs = map struct_error (check b) @ (if fs = [] then [] else ?ds)"
    using assms b errs
    by (auto simp: validate_struct_def validate_struct_with_def Let_def dest: file_loop_abort_pair
        split: prod.splits option.splits if_splits)
  with b wf show ?thesis by (cases "fs = []") auto
qed

lemma file_step_status:
  "form_file_consistent (ctx_form_file c) f \<Longrightarrow> fst (file_step r c f st) = Some a \<Longrightarrow> fiber_status a = None"
  by (auto simp: file_step_def form_file_consistent_def Let_def split: prod.splits option.splits sum.splits)

lemma file_loop_status:
  "list_all (form_file_consistent (ctx_form_file c)) fs \<Longrightarrow> fst (file_loop r c fs st) = Some a \<Longrightarrow>
   fiber_status a = None"
proof (induction fs arbitrary: st)
  case Nil
  then show ?case by simp
next
  case (Cons f fs)
  then show ?case using file_step_status [of c f r st] by (auto split: prod.splits option.splits)
qed

text \<open>C26: When FormFile never returns both a header and an error, as Fiber's contract says, ValidateStruct never answers with status 500: the branch of line 69 is unreachable.\<close>

theorem validate_struct_no_form_error:
  assumes "list_all (form_file_consistent (ctx_form_file c)) fs"
  shows "fiber_status (fst (validate_struct_with r check c (Some fs))) \<noteq> Some 500"
proof -
  have "file_loop r c fs st = (Some a, st') \<Longrightarrow> fiber_status a = None" for st a st'
    using file_loop_status [OF assms, of r st a] by simp
  then show ?thesis
    by (auto simp: validate_struct_with_def Let_def split: sum.splits prod.splits option.splits)
qed

lemma validate_struct_no_rules:
  assumes "ctx_body c = Inr b" and "check b = Inr errs" and "files = None \<or> files = Some []"
  shows "fst (validate_struct check c files) =
           (if errs = [] then Next (c\<lparr>ctx_locals := (ctx_locals c)(''request'' \<mapsto> b)\<rparr>)
            else Validate_failed (map struct_error errs))"
  using assms by (auto simp: validate_struct_def validate_struct_with_def)

text \<open>C28: A body the field validator accepts, with no declared file rules, is accepted unchanged: ValidateStruct forwards it, stored under the key request, and reads abstractly as Accepted of the decoded body.\<close>

theorem validate_struct_accepts_valid:
  assumes "ctx_body c = Inr b" and "check b = Inr []" and "files = None \<or> files = Some []"
  shows "fst (validate_struct check c files) = Next (c\<lparr>ctx_locals := (ctx_locals c)(''request'' \<mapsto> b)\<rparr>) \<and>
         abs_outcome (fst (validate_struct check c files)) = Some (Accepted b)"
  using validate_struct_no_rules [where check = check and errs = "[]", OF assms(1,2,3)] by simp

text \<open>C29: When exactly one struct field violates one rule and no file rule is declared, ValidateStruct rejects with exactly one violation, for that field (normalised) and rule.\<close>

theorem validate_struct_one_violation:
  assumes "ctx_body c = Inr b" and "check b = Inr [e]" and "files = None \<or> files = Some []"
  shows "fst (validate_struct check c files) =
           Validate_failed [\<lparr>failed_field = snake_case_lower (fe_field e), tag = fe_tag e,
                             value = fe_param e, message = []\<rparr>]"
  using validate_struct_no_rules [where check = check and errs = "[e]", OF assms(1,2,3)]
  by (simp add: struct_error_def)

end
