(* ===== verification/Pagination.thy ===== *)
theory Pagination
  imports Go_Lib
begin

text \<open>
  \<open>Pagination.GetPagination\<close> of \<open>src/utils/pagination.go\<close>. The query string is a map
  from parameter names to values (\<open>c.Query(key)\<close> is \<open>""\<close> for an absent key); Go's
  \<open>int\<close> is \<open>go_int = 64 word\<close>, so \<open>(page - 1) * perPage\<close> wraps around as the
  compiled code does; the four \<open>errors.New\<close> results are the constructors of
  \<open>pagination_error\<close>. The interface \<open>IPagination\<close> and \<open>NewPagination\<close> are a record
  of operations and its one value; \<open>pagination_reference\<close> restates the contract parameter
  by parameter, and \<open>get_pagination\<close> is proved equal to it.
\<close>

record resp_pagination =
  rp_page :: go_int
  rp_per_page :: go_int
  rp_offset :: go_int
  rp_order_field :: string
  rp_order_direction :: string
  rp_search :: string

datatype pagination_error =
    Invalid_page
  | Invalid_perPage
  | Invalid_order_field
  | Invalid_order_direction

fun pagination_error_message :: "pagination_error \<Rightarrow> string" where
  "pagination_error_message Invalid_page = ''Invalid page''"
| "pagination_error_message Invalid_perPage = ''Invalid perPage''"
| "pagination_error_message Invalid_order_field = ''Invalid order field''"
| "pagination_error_message Invalid_order_direction = ''Invalid order direction''"

type_synonym query = "string \<Rightarrow> string option"

definition fiber_query :: "query \<Rightarrow> string \<Rightarrow> string" where
  "fiber_query q key = (case q key of None \<Rightarrow> [] | Some v \<Rightarrow> v)"

text \<open>
  The pattern of lines 31--38 and 40--47: the default when the parameter is empty,
  else the value of \<open>strconv.Atoi\<close>, or the given error.
\<close>

definition query_int ::
  "query \<Rightarrow> string \<Rightarrow> go_int \<Rightarrow> pagination_error \<Rightarrow> pagination_error + go_int" where
  "query_int q key dflt err =
     (if fiber_query q key \<noteq> []
      then (case strconv_atoi (fiber_query q key) of None \<Rightarrow> Inl err | Some v \<Rightarrow> Inr v)
      else Inr dflt)"

text \<open>The pattern of lines 51--57 and 59--65: the default when the parameter is empty,
  else the value if the allow-list contains it, or the given error.\<close>

definition query_choice ::
  "query \<Rightarrow> string \<Rightarrow> string list \<Rightarrow> string \<Rightarrow> pagination_error \<Rightarrow> pagination_error + string" where
  "query_choice q key allow dflt err =
     (if fiber_query q key \<noteq> []
      then (if \<not> lo_contains allow (fiber_query q key) then Inl err else Inr (fiber_query q key))
      else Inr dflt)"

definition get_pagination :: "query \<Rightarrow> string list \<Rightarrow> pagination_error + resp_pagination" where
  "get_pagination q allowOrderField =
     (case query_int q ''page'' 1 Invalid_page of
        Inl e \<Rightarrow> Inl e
      | Inr page \<Rightarrow>
          (case query_int q ''per_page'' 10 Invalid_perPage of
             Inl e \<Rightarrow> Inl e
           | Inr perPage \<Rightarrow>
               (let offset = (page - 1) * perPage
                in case query_choice q ''order_field'' allowOrderField ''id'' Invalid_order_field of
                     Inl e \<Rightarrow> Inl e
                   | Inr orderField \<Rightarrow>
                       (case query_choice q ''order_direction'' [''desc'', ''asc''] ''desc''
                               Invalid_order_direction of
                          Inl e \<Rightarrow> Inl e
                        | Inr orderDirection \<Rightarrow>
                            Inr \<lparr>rp_page = page, rp_per_page = perPage, rp_offset = offset,
                                 rp_order_field = orderField, rp_order_direction = orderDirection,
                                 rp_search = []\<rparr>))))"

text \<open>The interface \<open>IPagination\<close> (lines 22--24) and \<open>NewPagination\<close> (lines 26--28),
  whose receiver \<open>Pagination struct{}\<close> carries no state.\<close>

record pagination_ops =
  get_pagination_op :: "query \<Rightarrow> string list \<Rightarrow> pagination_error + resp_pagination"

definition new_pagination :: pagination_ops where
  "new_pagination = \<lparr>get_pagination_op = get_pagination\<rparr>"

subsection \<open>A reference definition\<close>

text \<open>
  What \<open>GetPagination\<close> promises, read parameter by parameter: each parameter is either
  absent (its default), or valid (its value), or invalid (\<open>None\<close>); the result is the error of
  the first invalid parameter in the order page, per_page, order_field, order_direction, and
  otherwise the record of the four values.
\<close>

definition int_param :: "query \<Rightarrow> string \<Rightarrow> go_int \<Rightarrow> go_int option" where
  "int_param q key dflt =
     (if fiber_query q key = [] then Some dflt else strconv_atoi (fiber_query q key))"

definition choice_param :: "query \<Rightarrow> string \<Rightarrow> string list \<Rightarrow> string \<Rightarrow> string option" where
  "choice_param q key allow dflt =
     (if fiber_query q key = [] then Some dflt
      else if fiber_query q key \<in> set allow then Some (fiber_query q key) else None)"

definition pagination_reference :: "query \<Rightarrow> string list \<Rightarrow> pagination_error + resp_pagination" where
  "pagination_reference q allow =
     (let page = int_param q ''page'' 1; perPage = int_param q ''per_page'' 10;
          field = choice_param q ''order_field'' allow ''id'';
          dir = choice_param q ''order_direction'' [''desc'', ''asc''] ''desc''
      in case find (\<lambda>(ok, e). \<not> ok)
                [(page \<noteq> None, Invalid_page), (perPage \<noteq> None, Invalid_perPage),
                 (field \<noteq> None, Invalid_order_field), (dir \<noteq> None, Invalid_order_direction)] of
           Some (_, e) \<Rightarrow> Inl e
         | None \<Rightarrow>
             Inr \<lparr>rp_page = the page, rp_per_page = the perPage,
                  rp_offset = (the page - 1) * the perPage, rp_order_field = the field,
                  rp_order_direction = the dir, rp_search = []\<rparr>)"

subsection \<open>Properties\<close>

lemma query_int_param:
  "query_int q key d err = (case int_param q key d of None \<Rightarrow> Inl err | Some v \<Rightarrow> Inr v)"
  by (simp add: query_int_def int_param_def split: option.split)

lemma query_choice_param:
  "query_choice q key allow d err =
     (case choice_param q key allow d of None \<Rightarrow> Inl err | Some v \<Rightarrow> Inr v)"
  by (simp add: query_choice_def choice_param_def lo_contains_def)

text \<open>C23: GetPagination equals the reference definition: it fails with the error of the first invalid parameter in the order page, per_page, order_field, order_direction, and otherwise returns the four values read with offset (page - 1) * perPage.\<close>

theorem get_pagination_eq_reference: "get_pagination q allow = pagination_reference q allow"
  by (simp add: get_pagination_def pagination_reference_def query_int_param query_choice_param
      Let_def split: option.split)

lemma query_int_Inr_cases:
  "query_int q key d err = Inr v \<Longrightarrow> (fiber_query q key = [] \<and> v = d) \<or> strconv_atoi (fiber_query q key) = Some v"
  by (auto simp: query_int_def split: if_splits option.splits)

lemma query_choice_Inr:
  "query_choice q key allow d err = Inr v \<Longrightarrow> v = d \<or> v \<in> set allow"
  by (auto simp: query_choice_def lo_contains_def split: if_splits)

lemma get_pagination_Inr:
  assumes "get_pagination q allow = Inr r"
  shows "\<exists>page perPage.
           query_int q ''page'' 1 Invalid_page = Inr page \<and>
           query_int q ''per_page'' 10 Invalid_perPage = Inr perPage \<and>
           rp_page r = page \<and> rp_per_page r = perPage \<and> rp_offset r = (page - 1) * perPage \<and>
           query_choice q ''order_field'' allow ''id'' Invalid_order_field = Inr (rp_order_field r) \<and>
           query_choice q ''order_direction'' [''desc'', ''asc''] ''desc'' Invalid_order_direction =
             Inr (rp_order_direction r) \<and> rp_search r = []"
  using assms by (auto simp: get_pagination_def Let_def split: sum.splits)

text \<open>C15: A successful GetPagination returns an order field that is id or a member of the allow-list, and an order direction that is desc or asc.\<close>

theorem get_pagination_order_safe:
  assumes "get_pagination q allow = Inr r"
  shows "(rp_order_field r = ''id'' \<or> rp_order_field r \<in> set allow) \<and>
         rp_order_direction r \<in> {''desc'', ''asc''}"
  using get_pagination_Inr [OF assms] query_choice_Inr by fastforce

text \<open>C19: When the four parameters are absent or empty, whatever else the query holds and whatever the allow-list, GetPagination returns page 1, 10 per page, offset 0, order field id and direction desc.\<close>

theorem get_pagination_defaults:
  assumes "fiber_query q ''page'' = []" and "fiber_query q ''per_page'' = []"
    and "fiber_query q ''order_field'' = []" and "fiber_query q ''order_direction'' = []"
  shows "get_pagination q allow =
     Inr \<lparr>rp_page = 1, rp_per_page = 10, rp_offset = 0, rp_order_field = ''id'',
          rp_order_direction = ''desc'', rp_search = []\<rparr>"
  using assms by (simp add: get_pagination_def query_int_def query_choice_def)

text \<open>C16: When page - 1 and (page - 1) * perPage fit in a Go int, the offset GetPagination returns is (page - 1) * perPage.\<close>

theorem get_pagination_offset:
  assumes "get_pagination q allow = Inr r"
    and "in_go_int_range ((sint (rp_page r) - 1) * sint (rp_per_page r))"
    and "in_go_int_range (sint (rp_page r) - 1)"
  shows "sint (rp_offset r) = (sint (rp_page r) - 1) * sint (rp_per_page r)"
proof -
  have off: "rp_offset r = (rp_page r - 1) * rp_per_page r"
    using get_pagination_Inr [OF assms(1)] by auto
  have "sint (rp_page r - 1) = sint (rp_page r) - 1"
    using assms(3) sint_diff_in_range [of "rp_page r" 1] by simp
  with assms(2) show ?thesis by (simp add: off sint_mult_in_range)
qed


lemma get_pagination_page_error:
  "query_int q ''page'' 1 Invalid_page = Inl e \<Longrightarrow> get_pagination q allow = Inl e"
  by (simp add: get_pagination_def)

text \<open>C20: A non-empty page parameter that Atoi rejects makes GetPagination fail with Invalid page, whatever the other parameters are.\<close>

theorem get_pagination_invalid_page:
  assumes "fiber_query q ''page'' \<noteq> []" and "strconv_atoi (fiber_query q ''page'') = None"
  shows "get_pagination q allow = Inl Invalid_page"
  using assms by (simp add: get_pagination_def query_int_def)

text \<open>C21: A page parameter printed by %d from a Go int is read back by GetPagination as the same int.\<close>

theorem get_pagination_page_value:
  assumes "in_go_int_range p" and "q ''page'' = Some (show_int p)"
    and "get_pagination q allow = Inr r"
  shows "sint (rp_page r) = p"
proof -
  have "show_int p \<noteq> []" by (simp add: show_int_def show_nat_nonempty)
  then have "query_int q ''page'' 1 Invalid_page = Inr (word_of_int p)"
    using assms(1,2) by (simp add: query_int_def fiber_query_def strconv_atoi_show_int)
  then show ?thesis using get_pagination_Inr [OF assms(3)] assms(1) by auto
qed

lemma query_int_show_int:
  assumes "q key = Some (show_int x)" and "query_int q key d err = Inr w"
  shows "w = word_of_int x"
proof -
  have ne: "show_int x \<noteq> []" by (simp add: show_int_def show_nat_nonempty)
  then have "strconv_atoi (show_int x) = Some w"
    using assms by (simp add: query_int_def fiber_query_def split: option.splits)
  then show ?thesis by (simp add: strconv_atoi_parse_int split: if_splits)
qed

text \<open>C30: Consecutive pages are contiguous in Go's 64-bit arithmetic: if GetPagination answers for page p and for page p + 1 (printed by %d, other parameters unchanged), the per-page count is the same and the offset of page p + 1 is the offset of page p plus perPage, modulo 2^64, wrap-around included.\<close>

theorem get_pagination_pages_contiguous:
  assumes "get_pagination q allow = Inr r"
    and "get_pagination (q(''page'' \<mapsto> show_int (sint (rp_page r) + 1))) allow = Inr r'"
  shows "rp_per_page r' = rp_per_page r \<and> rp_offset r' = rp_offset r + rp_per_page r"
proof -
  let ?q' = "q(''page'' \<mapsto> show_int (sint (rp_page r) + 1))"
  obtain page perPage where p: "query_int q ''per_page'' 10 Invalid_perPage = Inr perPage"
    "rp_page r = page" "rp_per_page r = perPage" "rp_offset r = (page - 1) * perPage"
    using get_pagination_Inr [OF assms(1)] by blast
  obtain page' perPage' where p': "query_int ?q' ''page'' 1 Invalid_page = Inr page'"
    "query_int ?q' ''per_page'' 10 Invalid_perPage = Inr perPage'"
    "rp_per_page r' = perPage'" "rp_offset r' = (page' - 1) * perPage'"
    using get_pagination_Inr [OF assms(2)] by blast
  have "page' = word_of_int (sint (rp_page r) + 1)"
    using query_int_show_int [OF _ p'(1)] by simp
  then have page': "page' = page + 1" using p(2) by (simp add: wi_hom_syms)
  have "query_int ?q' ''per_page'' 10 Invalid_perPage = query_int q ''per_page'' 10 Invalid_perPage"
    by (simp add: query_int_def fiber_query_def)
  then have "perPage' = perPage" using p(1) p'(2) by simp
  then show ?thesis using p p' page' by (simp add: algebra_simps)
qed



text \<open>C18: GetPagination accepts every page in Go's int range, including 0 and negative pages, with no lower bound: a lone page parameter printed by %d yields that page, 10 per page and offset (page - 1) * 10, negative for page 0.\<close>

theorem get_pagination_any_page:
  assumes "in_go_int_range p"
  shows "get_pagination [''page'' \<mapsto> show_int p] allow =
           Inr \<lparr>rp_page = word_of_int p, rp_per_page = 10, rp_offset = (word_of_int p - 1) * 10,
                rp_order_field = ''id'', rp_order_direction = ''desc'', rp_search = []\<rparr>"
proof -
  have "show_int p \<noteq> []" by (simp add: show_int_def show_nat_nonempty)
  with assms show ?thesis
    by (simp add: get_pagination_def query_int_def query_choice_def fiber_query_def strconv_atoi_show_int)
qed

subsection \<open>Witnesses\<close>

theorem get_pagination_order_safe_witness:
  "get_pagination [''order_field'' \<mapsto> ''name'', ''order_direction'' \<mapsto> ''asc''] [''name'', ''created_at''] =
     Inr \<lparr>rp_page = 1, rp_per_page = 10, rp_offset = 0, rp_order_field = ''name'',
          rp_order_direction = ''asc'', rp_search = []\<rparr> \<and>
   (''name'' = ''id'' \<or> ''name'' \<in> set [''name'', ''created_at'']) \<and> ''asc'' \<in> {''desc'', ''asc''}"
proof -
  have r: "get_pagination [''order_field'' \<mapsto> ''name'', ''order_direction'' \<mapsto> ''asc''] [''name'', ''created_at''] =
     Inr \<lparr>rp_page = 1, rp_per_page = 10, rp_offset = 0, rp_order_field = ''name'',
          rp_order_direction = ''asc'', rp_search = []\<rparr>"
    by (simp add: get_pagination_def query_int_def query_choice_def fiber_query_def go_eval)
  show ?thesis using get_pagination_order_safe [OF r] r by simp
qed

theorem get_pagination_offset_witness:
  "sint ((3 :: go_int) - 1) * sint (20 :: go_int) = 40 \<and>
   get_pagination [''page'' \<mapsto> ''3'', ''per_page'' \<mapsto> ''20''] [] =
     Inr \<lparr>rp_page = 3, rp_per_page = 20, rp_offset = 40, rp_order_field = ''id'',
          rp_order_direction = ''desc'', rp_search = []\<rparr>"
proof -
  let ?r = "\<lparr>rp_page = 3 :: go_int, rp_per_page = 20, rp_offset = 40, rp_order_field = ''id'',
          rp_order_direction = ''desc'', rp_search = []\<rparr>"
  have r: "get_pagination [''page'' \<mapsto> ''3'', ''per_page'' \<mapsto> ''20''] [] = Inr ?r"
    by (simp add: get_pagination_def query_int_def query_choice_def fiber_query_def go_eval)
  have "sint (rp_offset ?r) = (sint (rp_page ?r) - 1) * sint (rp_per_page ?r)"
    by (rule get_pagination_offset [OF r]) (simp_all add: in_go_int_range_def)
  with r show ?thesis by simp
qed

theorem get_pagination_invalid_page_witness:
  "get_pagination [''page'' \<mapsto> ''abc'', ''per_page'' \<mapsto> ''x''] [] = Inl Invalid_page"
  by (rule get_pagination_invalid_page) (simp_all add: fiber_query_def go_eval)

theorem get_pagination_page_value_witness:
  "get_pagination [''page'' \<mapsto> ''-5''] [] =
     Inr \<lparr>rp_page = - 5, rp_per_page = 10, rp_offset = - 60, rp_order_field = ''id'',
          rp_order_direction = ''desc'', rp_search = []\<rparr> \<and> sint (- 5 :: go_int) = - 5"
proof -
  have r: "get_pagination [''page'' \<mapsto> show_int (- 5)] [] =
     Inr \<lparr>rp_page = - 5, rp_per_page = 10, rp_offset = - 60, rp_order_field = ''id'',
          rp_order_direction = ''desc'', rp_search = []\<rparr>"
    by (simp add: get_pagination_def query_int_def query_choice_def fiber_query_def go_eval)
  have "sint (rp_page \<lparr>rp_page = - 5 :: go_int, rp_per_page = 10, rp_offset = - 60, rp_order_field = ''id'',
          rp_order_direction = ''desc'', rp_search = []\<rparr>) = - 5"
    by (rule get_pagination_page_value [OF _ _ r]) (simp_all add: in_go_int_range_def)
  moreover have "show_int (- 5) = ''-5''" by (simp add: go_eval)
  ultimately show ?thesis using r by simp
qed

theorem get_pagination_pages_contiguous_witness:
  "\<exists>r r'. get_pagination [''page'' \<mapsto> ''4611686018427387904'', ''per_page'' \<mapsto> ''4''] [] = Inr r \<and>
     get_pagination ([''page'' \<mapsto> ''4611686018427387904'', ''per_page'' \<mapsto> ''4''](''page'' \<mapsto> show_int (sint (rp_page r) + 1))) [] = Inr r' \<and>
     rp_offset r = - 4 \<and> rp_offset r' = 0 \<and>
     rp_per_page r' = rp_per_page r \<and> rp_offset r' = rp_offset r + rp_per_page r"
proof -
  let ?q = "[''page'' \<mapsto> ''4611686018427387904'', ''per_page'' \<mapsto> ''4'']"
  have r: "get_pagination ?q [] =
     Inr \<lparr>rp_page = word_of_int (2 ^ 62), rp_per_page = 4, rp_offset = - 4, rp_order_field = ''id'',
          rp_order_direction = ''desc'', rp_search = []\<rparr>"
    by (simp add: get_pagination_def query_int_def query_choice_def fiber_query_def go_eval)
  have s: "show_int (sint (word_of_int (2 ^ 62) :: go_int) + 1) = ''4611686018427387905''"
    by (simp add: go_eval)
  have r': "get_pagination (?q(''page'' \<mapsto> ''4611686018427387905'')) [] =
     Inr \<lparr>rp_page = word_of_int (2 ^ 62 + 1), rp_per_page = 4, rp_offset = 0, rp_order_field = ''id'',
          rp_order_direction = ''desc'', rp_search = []\<rparr>"
    by (simp add: get_pagination_def query_int_def query_choice_def fiber_query_def go_eval)
  let ?R = "\<lparr>rp_page = word_of_int (2 ^ 62), rp_per_page = 4, rp_offset = - 4, rp_order_field = ''id'',
          rp_order_direction = ''desc'', rp_search = []\<rparr> :: resp_pagination"
  let ?R' = "\<lparr>rp_page = word_of_int (2 ^ 62 + 1), rp_per_page = 4, rp_offset = 0, rp_order_field = ''id'',
          rp_order_direction = ''desc'', rp_search = []\<rparr> :: resp_pagination"
  have r2: "get_pagination (?q(''page'' \<mapsto> show_int (sint (rp_page ?R) + 1))) [] = Inr ?R'"
    using r' s by simp
  have c: "rp_per_page ?R' = rp_per_page ?R \<and> rp_offset ?R' = rp_offset ?R + rp_per_page ?R"
    by (rule get_pagination_pages_contiguous [OF r r2])
  have "rp_offset ?R = - 4 \<and> rp_offset ?R' = 0" by simp
  with r r2 c show ?thesis by blast
qed


theorem get_pagination_any_page_witness:
  "in_go_int_range 0 \<and>
   get_pagination [''page'' \<mapsto> show_int 0] [] =
     Inr \<lparr>rp_page = 0, rp_per_page = 10, rp_offset = - 10, rp_order_field = ''id'',
          rp_order_direction = ''desc'', rp_search = []\<rparr>"
proof -
  have z: "in_go_int_range 0" by (simp add: in_go_int_range_def)
  show ?thesis using z get_pagination_any_page [OF z, of "[]"] by simp
qed

theorem get_pagination_defaults_witness:
  "get_pagination [''page'' \<mapsto> [], ''search'' \<mapsto> ''shoes''] [''name''] =
     Inr \<lparr>rp_page = 1, rp_per_page = 10, rp_offset = 0, rp_order_field = ''id'',
          rp_order_direction = ''desc'', rp_search = []\<rparr>"
  by (rule get_pagination_defaults) (simp_all add: fiber_query_def)

end
