(* ===== verification/Spec2Isabelle.thy ===== *)
theory Spec2Isabelle
  imports Validator Pagination
begin

text \<open>
  \<^bold>\<open>A verification model of igg-golang-api-utils.\<close>

  The repository is a small Go library for Fiber HTTP services with two parts:
  \<^item> \<open>src/utils/validator.go\<close>, the request validator: \<open>ValidateStruct[T]\<close> parses the
    body into a \<open>T\<close>, runs the struct-tag validator of \<open>go-playground/validator\<close>,
    checks each declared upload field (\<open>ValidateFile\<close>) with the file rule checker
    (\<open>Rule.File\<close>: extension allow-list and size ceiling; \<open>Rule.Resolution\<close>: exact
    image width and height read from the image header), and either answers with the list
    of \<open>ErrorResponse\<close>s or stores the body in \<open>c.Locals("request")\<close> and calls the next
    handler;
  \<^item> \<open>src/utils/pagination.go\<close>, \<open>GetPagination\<close>: page, page size, offset and
    ordering read from the query string; independent of the validator.

  \<^bold>\<open>Theories.\<close>
  \<^item> \<open>Go_Prelude\<close>: \<open>go_int = 64 word\<close> for Go's \<open>int\<close>, the \<open>go_eval\<close> collection
    of evaluation rules, lemmas on options as short lists and on the \<open>int\<close> range.
  \<^item> \<open>Go_Lib\<close>: models of the library functions the code calls (\<open>lo.Contains\<close>,
    \<open>filepath.Ext\<close>, \<open>strings.Join\<close>, \<open>%d\<close> and \<open>%f\<close> of \<open>fmt.Sprintf\<close>,
    \<open>strconv.Atoi\<close>, and the field-name normaliser of \<open>gobeam/stringy\<close>), written from
    their documented behaviour, with the round trip of \<open>Atoi\<close> and \<open>%d\<close> and the shape
    of \<open>filepath.Ext\<close>.
  \<^item> \<open>File_Rule\<close>: the records \<open>error_response\<close>, \<open>image_resolution\<close>,
    \<open>validate_file\<close>, the upload handle \<open>file_header\<close> (name, size, what \<open>Open\<close>
    yields), \<open>rule_file\<close> (\<open>Rule.File\<close>), \<open>rule_resolution\<close>
    (\<open>Rule.Resolution\<close>, with its trace of opens and closes and its panic), and the
    interface record \<open>rule_ops\<close> with \<open>new_rule\<close> (\<open>NewRule\<close>).
  \<^item> \<open>Validator\<close>: the context record \<open>fiber_ctx\<close>, the outcome datatype, the
    per-file step \<open>file_step\<close> (one iteration of the loop), the loop \<open>file_loop\<close> and
    the handler \<open>validate_struct\<close>; an abstract specification of the validator from the
    contract of the repository's design (\<open>spec_validate\<close>) and the refinement lemma
    relating the two; the loop's reference definition \<open>file_loop_reference\<close> (every rule
    checked alone from an empty state); the well-formedness \<open>file_error_wf\<close> of the
    errors the loop reports; Fiber's \<open>FormFile\<close> contract \<open>form_file_consistent\<close>.
  \<^item> \<open>Pagination\<close>: the interface record \<open>pagination_ops\<close> with \<open>new_pagination\<close>
    (\<open>IPagination\<close>, \<open>NewPagination\<close>) and \<open>get_pagination\<close> over a query map, with
    Go's \<open>int\<close> as \<open>64 word\<close> so that the offset \<open>(page - 1) * perPage\<close> wraps as in
    Go; the reference definition \<open>pagination_reference\<close> (first invalid parameter wins).

  \<^bold>\<open>What the lemmas show.\<close>
  \<^item> Refinement (\<open>Validator\<close>): \<open>validate_struct_refines_spec\<close> states that the handler,
    read through \<open>abs_outcome\<close>, is \<open>spec_validate\<close> whenever \<open>form_ok\<close> holds for
    every rule; it rests on a frame lemma (a step only appends to the error list and the
    trace: \<open>file_step_frame\<close>, \<open>file_loop_frame\<close>), on the per-rule refinement
    \<open>file_step_spec\<close> and on the loop lemma \<open>file_loop_spec\<close>. The specification is
    instantiated with \<open>code_target\<close> (the width twice, what line 80 passes); with the
    intended \<open>spec_target\<close> the code disagrees (\<open>file_step_resolution_uses_width\<close>).
  \<^item> Invariants and safety: a rejection always carries at least one error; forwarding
    happens only with no struct violation and changes only \<open>Locals("request")\<close>; one
    iteration keeps the errors so far and appends at most one, for any \<open>rule\<close>
    implementation; every opened upload
    is closed before the next is opened, on every path (\<open>balanced_io\<close>).
  \<^item> The testable properties of the specification (section 8): a valid body with no file
    rules is accepted unchanged; a single struct violation gives exactly one error; the
    file checks below.
  \<^item> Error paths: body-parse failure (400, nothing evaluated), the panic of the type
    assertion on a non-\<open>ValidationErrors\<close> error, the nil-interface panic of
    \<open>Rule.Resolution\<close>, and the \<open>FormFile\<close> error swallowed when no header comes with it.
  \<^item> File checks (\<open>File_Rule\<close>): extension rejection with the joined allow-list,
    acceptance of declared extensions, the inclusive size boundary
    with the \<open>%f\<close>-printed threshold, exact resolution equality.
  \<^item> Pagination: ordering values always come from the allow-lists; absent or empty
    parameters give the defaults; the offset is \<open>(page - 1) * perPage\<close> when it fits in
    an \<open>int\<close>, and in general that product reduced to the signed 64-bit range; every page
    of the \<open>int\<close> range is accepted, 0 and negative ones included; a page printed by \<open>%d\<close> is read back unchanged (round trip of \<open>Atoi\<close>);
    \<open>get_pagination\<close> equals \<open>pagination_reference\<close>, which fixes the order in which
    the four parameters are checked; consecutive pages stay contiguous, the offset of page
    \<open>p + 1\<close> being that of page \<open>p\<close> plus \<open>perPage\<close> modulo \<open>2^64\<close>, wrap included
    (\<open>get_pagination_pages_contiguous\<close>).
  \<^item> Equivalence and well-formedness (\<open>Validator\<close>): the loop equals its reference
    definition (\<open>file_loop_eq_reference\<close>): threading the state is the same as checking
    each rule alone; every error of a rejection is a struct error or names a declared
    upload field with one of the four file tags and no message; with Fiber's \<open>FormFile\<close>
    contract, status 500 never occurs (the branch of line 69 is dead). The value \<open>WxH\<close>
    of a resolution error reads back as the requested pair (\<open>File_Rule\<close>).

  \<^bold>\<open>Choices of the model.\<close>
  Go's \<open>float64\<close> (the size ceiling) is the rational number it denotes: the product with
  \<open>1024 * 1024\<close> is exact in binary floating point, and the conversion of an \<open>int64\<close>
  size is exact below \<open>2^53\<close> bytes; \<open>%f\<close> rounds the exact value half to even as
  \<open>strconv.FormatFloat\<close> does. Image decoding (\<open>image.DecodeConfig\<close>) is represented by
  its result, the width and height or a failure, stored in the upload handle; what
  \<open>Open\<close> returns is one of three cases (a handle, a nil interface, a typed nil
  \<open>*os.File\<close>). The HTTP plumbing of Fiber (\<open>BodyParser\<close>, \<open>FormFile\<close>,
  \<open>Query\<close>, \<open>Status\<close>, \<open>JSON\<close>, \<open>Next\<close>) is represented by its results; the JSON
  envelope and status of \<open>response.ValidateFailed\<close> are not modelled, nor is the rule
  grammar of \<open>go-playground/validator\<close>, which is an interface (a function from the body
  to an error or a list of field errors). The \<open>stringy\<close> normaliser and \<open>ToLower\<close> are
  modelled on ASCII letters. No loop of the code is unbounded: every recursion of the model
  is structural, so no fuel is needed and every function is total.

  \<^bold>\<open>Not modelled.\<close>
  Every operation and type of both source files is modelled; the map covers every line of
  \<open>src/\<close> but the package clauses and imports. What is left out is not code of
  \<open>src/\<close>: the JSON envelope of \<open>response.ValidateFailed\<close>, the rule grammar of
  \<open>go-playground/validator\<close>, image decoding beyond its result, and \<open>float64\<close>
  beyond the exact rationals: sizes above \<open>2^53\<close> bytes, and a \<open>NaN\<close> or infinite
  \<open>Size\<close>, which a rational cannot represent (with \<open>+Inf\<close> every size would pass, with
  \<open>NaN\<close> every size too, since the comparison is false). The first three are
  third-party or standard-library code the handler only calls, represented by their
  results. Concurrent requests are not modelled: the handlers keep all their state in
  local variables (\<open>errors\<close>, \<open>rule\<close>, \<open>validate\<close>, the query values), so a model of
  interleaved requests would be isolated by construction and could show nothing about the
  code.
\<close>


section \<open>Example requests\<close>

text \<open>
  Concrete inputs on which the witnesses evaluate the model: a body \<open>7\<close> with one
  missing first name; an avatar upload \<open>me.png\<close> of exactly 1 MiB and 100x100 pixels; a
  required cover field with no upload; a photo field declared at 100x200.
\<close>

definition ex_avatar :: file_header where
  "ex_avatar = \<lparr>fh_filename = ''me.png'', fh_size = 1048576, fh_open = Handle (Some (100, 100))\<rparr>"

definition ex_form :: "string \<Rightarrow> file_header option \<times> string option" where
  "ex_form k = (if k = ''avatar'' then (Some ex_avatar, None) else (None, None))"

definition ex_ctx :: "nat fiber_ctx" where
  "ex_ctx = \<lparr>ctx_body = Inr 7, ctx_form_file = ex_form, ctx_locals = Map.empty\<rparr>"

definition ex_rules :: "validate_file list" where
  "ex_rules =
     [\<lparr>vf_field = ''avatar'', vf_is_required = True, vf_extension = [''.jpg'', ''.png''], vf_size = 1,
       vf_image_resolution = Some \<lparr>ir_width = 100, ir_height = 100\<rparr>\<rparr>,
      \<lparr>vf_field = ''cover'', vf_is_required = True, vf_extension = [''.jpg''], vf_size = 2,
       vf_image_resolution = None\<rparr>]"

definition ex_check :: "nat \<Rightarrow> field_error list" where
  "ex_check b = (if b = 7 then [\<lparr>fe_field = ''FirstName'', fe_tag = ''required'', fe_param = []\<rparr>] else [])"

definition ex_photo :: validate_file where
  "ex_photo = \<lparr>vf_field = ''photo'', vf_is_required = False, vf_extension = [''.png''], vf_size = 1,
                vf_image_resolution = Some \<lparr>ir_width = 100, ir_height = 200\<rparr>\<rparr>"

definition ex_photo_header :: "file_handle \<Rightarrow> file_header" where
  "ex_photo_header fhd = \<lparr>fh_filename = ''wide.png'', fh_size = 4096, fh_open = fhd\<rparr>"

definition ex_photo_ctx :: "file_handle \<Rightarrow> nat fiber_ctx" where
  "ex_photo_ctx fhd = \<lparr>ctx_body = Inr 0, ctx_form_file = (\<lambda>_. (Some (ex_photo_header fhd), None)),
                       ctx_locals = Map.empty\<rparr>"

lemmas ex_defs = ex_avatar_def ex_form_def ex_ctx_def ex_rules_def ex_check_def
  ex_photo_def ex_photo_header_def ex_photo_ctx_def

lemmas run_defs = validate_struct_def validate_struct_with_def file_step_def new_rule_def rule_file_def
  rule_resolution_def resolution_error_def error_elements_def add_error_def copy_error_def
  required_error_def struct_error_def


section \<open>Witnesses\<close>

text \<open>Each theorem below applies one property of the component theories at a concrete
  request, its hypotheses discharged by evaluation.\<close>

theorem validate_struct_refines_spec_witness:
  "abs_outcome (fst (validate_struct (\<lambda>b. Inr (ex_check b)) ex_ctx (Some ex_rules))) =
     Some (Rejected [\<lparr>failed_field = ''first_name'', tag = ''required'', value = [], message = []\<rparr>,
                     \<lparr>failed_field = ''cover'', tag = ''required'', value = [], message = []\<rparr>])"
proof -
  have ok: "\<forall>f\<in>set ex_rules. form_ok (ctx_form_file ex_ctx) f"
    by (simp add: ex_defs form_ok_def)
  have "spec_validate code_target ex_check ex_ctx ex_rules =
     Rejected [\<lparr>failed_field = ''first_name'', tag = ''required'', value = [], message = []\<rparr>,
               \<lparr>failed_field = ''cover'', tag = ''required'', value = [], message = []\<rparr>]"
    by (simp add: spec_validate_def spec_file_violation_def ex_defs struct_error_def code_target_def
        decoded_config_def required_error_def go_eval)
  then show ?thesis using validate_struct_refines_spec [OF ok] by simp
qed

theorem validate_struct_rejected_nonempty_witness:
  "fst (validate_struct_with new_rule (\<lambda>b. Inr (ex_check b)) ex_ctx (Some ex_rules)) =
     Validate_failed [\<lparr>failed_field = ''first_name'', tag = ''required'', value = [], message = []\<rparr>,
                      \<lparr>failed_field = ''cover'', tag = ''required'', value = [], message = []\<rparr>] \<and>
   [\<lparr>failed_field = ''first_name'', tag = ''required'', value = [], message = []\<rparr>,
    \<lparr>failed_field = ''cover'', tag = ''required'', value = [], message = []\<rparr>] \<noteq> []"
proof -
  have r: "fst (validate_struct_with new_rule (\<lambda>b. Inr (ex_check b)) ex_ctx (Some ex_rules)) =
     Validate_failed [\<lparr>failed_field = ''first_name'', tag = ''required'', value = [], message = []\<rparr>,
                      \<lparr>failed_field = ''cover'', tag = ''required'', value = [], message = []\<rparr>]"
    by (simp add: run_defs ex_defs Let_def go_eval)
  show ?thesis using r validate_struct_rejected_nonempty [OF r] by simp
qed

theorem validate_struct_next_witness:
  "fst (validate_struct_with new_rule (\<lambda>b. Inr []) ex_ctx (Some [hd ex_rules])) =
     Next (ex_ctx\<lparr>ctx_locals := [''request'' \<mapsto> 7]\<rparr>) \<and>
   ctx_body ex_ctx = Inr 7 \<and> ctx_locals (ex_ctx\<lparr>ctx_locals := [''request'' \<mapsto> 7]\<rparr>) ''request'' = Some 7"
proof -
  have r: "fst (validate_struct_with new_rule (\<lambda>b. Inr []) ex_ctx (Some [hd ex_rules])) =
     Next (ex_ctx\<lparr>ctx_locals := [''request'' \<mapsto> 7]\<rparr>)"
    by (simp add: run_defs ex_defs Let_def go_eval)
  obtain b where "ctx_body ex_ctx = Inr b"
    and "ex_ctx\<lparr>ctx_locals := [''request'' \<mapsto> 7]\<rparr> = ex_ctx\<lparr>ctx_locals := (ctx_locals ex_ctx)(''request'' \<mapsto> b)\<rparr>"
    using validate_struct_next [OF r] by blast
  then show ?thesis using r by (simp add: ex_ctx_def)
qed

theorem validate_struct_body_error_witness:
  "validate_struct (\<lambda>b. Inr (ex_check b)) (ex_ctx\<lparr>ctx_body := Inl ''unexpected EOF''\<rparr>) (Some ex_rules) =
     (Fiber_error 400 ''Body parser error: unexpected EOF'', [])"
  using validate_struct_body_error [of "ex_ctx\<lparr>ctx_body := Inl ''unexpected EOF''\<rparr>" "''unexpected EOF''"]
  by simp

theorem file_step_absent_upload_witness:
  "file_step new_rule (ex_ctx\<lparr>ctx_form_file := (\<lambda>_. (None, Some ''multipart: NextPart: EOF''))\<rparr>)
     (hd ex_rules) empty_vstate =
   (None, \<lparr>vs_errors = [\<lparr>failed_field = ''avatar'', tag = ''required'', value = [], message = []\<rparr>], vs_io = []\<rparr>)"
  using file_step_absent_upload [of "ex_ctx\<lparr>ctx_form_file := (\<lambda>_. (None, Some ''multipart: NextPart: EOF''))\<rparr>"
      "hd ex_rules" new_rule empty_vstate]
  by (simp add: ex_defs add_error_def required_error_def empty_vstate_def)

theorem rule_file_extension_rejected_witness:
  "rule_file ''avatar'' \<lparr>fh_filename = ''scan.pdf'', fh_size = 10, fh_open = Handle None\<rparr> [''.jpg'', ''.png''] 1 =
     Some \<lparr>failed_field = ''avatar'', tag = ''file_extension'', value = ''.jpg, .png'', message = []\<rparr>"
  by (rule rule_file_extension_rejected [THEN trans]) (simp_all add: go_eval)

theorem rule_file_size_witness:
  "rule_file ''avatar'' ex_avatar [''.jpg'', ''.png''] 1 = None \<and>
   rule_file ''avatar'' (ex_avatar\<lparr>fh_size := 1048577\<rparr>) [''.jpg'', ''.png''] 1 =
     Some \<lparr>failed_field = ''avatar'', tag = ''file_size'', value = ''1048576.000000'', message = []\<rparr>"
proof
  show "rule_file ''avatar'' ex_avatar [''.jpg'', ''.png''] 1 = None"
    by (rule rule_file_size [THEN trans]) (simp_all add: ex_avatar_def go_eval)
  show "rule_file ''avatar'' (ex_avatar\<lparr>fh_size := 1048577\<rparr>) [''.jpg'', ''.png''] 1 =
     Some \<lparr>failed_field = ''avatar'', tag = ''file_size'', value = ''1048576.000000'', message = []\<rparr>"
    by (rule rule_file_size [THEN trans]) (simp_all add: ex_avatar_def Let_def go_eval)
qed

theorem rule_resolution_decoded_witness:
  "rule_resolution ''avatar'' (ex_avatar\<lparr>fh_open := Handle (Some (100, 101))\<rparr>) 100 100 =
     ([Open_file ''me.png'', Close_file ''me.png''],
      Inr (Some \<lparr>failed_field = ''avatar'', tag = ''resolution'', value = ''100x100'', message = []\<rparr>)) \<and>
   rule_resolution ''avatar'' ex_avatar 100 100 = ([Open_file ''me.png'', Close_file ''me.png''], Inr None)"
proof
  show "rule_resolution ''avatar'' (ex_avatar\<lparr>fh_open := Handle (Some (100, 101))\<rparr>) 100 100 =
     ([Open_file ''me.png'', Close_file ''me.png''],
      Inr (Some \<lparr>failed_field = ''avatar'', tag = ''resolution'', value = ''100x100'', message = []\<rparr>))"
    by (rule rule_resolution_decoded [of _ 100 101, THEN trans])
      (simp_all add: ex_avatar_def resolution_error_def error_elements_def go_eval)
  show "rule_resolution ''avatar'' ex_avatar 100 100 = ([Open_file ''me.png'', Close_file ''me.png''], Inr None)"
    by (rule rule_resolution_decoded [THEN trans]) (simp_all add: ex_avatar_def)
qed

theorem file_step_resolution_uses_width_witness:
  "vs_errors (snd (file_step new_rule (ex_photo_ctx (Handle (Some (100, 200)))) ex_photo empty_vstate)) =
     [\<lparr>failed_field = ''photo'', tag = ''resolution'', value = ''100x100'', message = []\<rparr>] \<and>
   spec_file_violation spec_target (ctx_form_file (ex_photo_ctx (Handle (Some (100, 200))))) ex_photo = None"
proof -
  have "file_step new_rule (ex_photo_ctx (Handle (Some (100, 200)))) ex_photo empty_vstate =
          (None, add_error (empty_vstate\<lparr>vs_io := vs_io empty_vstate @
             [Open_file (fh_filename (ex_photo_header (Handle (Some (100, 200))))),
              Close_file (fh_filename (ex_photo_header (Handle (Some (100, 200)))))]\<rparr>)
             (resolution_error (vf_field ex_photo) 100 100)) \<and>
        spec_file_violation spec_target (ctx_form_file (ex_photo_ctx (Handle (Some (100, 200))))) ex_photo = None"
    by (rule file_step_resolution_uses_width [where h = "ex_photo_header (Handle (Some (100, 200)))"
          and r = "\<lparr>ir_width = 100, ir_height = 200\<rparr>", simplified])
      (simp_all add: ex_defs rule_file_def go_eval)
  then show ?thesis
    by (simp add: add_error_def empty_vstate_def resolution_error_def error_elements_def ex_photo_def go_eval)
qed

theorem file_step_nil_interface_panics_witness:
  "fst (file_step new_rule (ex_photo_ctx Nil_interface) ex_photo empty_vstate) = Some (Panic nil_deref_panic)"
  by (rule file_step_nil_interface_panics [where h = "ex_photo_header Nil_interface"
        and r = "\<lparr>ir_width = 100, ir_height = 200\<rparr>"])
    (simp_all add: ex_defs rule_file_def go_eval)

theorem validate_struct_invalid_validation_witness:
  "validate_struct (\<lambda>b :: nat. Inl ''validator: (nil *int)'') ex_ctx (Some ex_rules) = (Panic type_assertion_panic, [])"
  by (rule validate_struct_invalid_validation [of _ 7]) (simp_all add: ex_ctx_def)

theorem struct_error_lower_witness:
  "map struct_error [\<lparr>fe_field = ''UserID'', fe_tag = ''required'', fe_param = []\<rparr>] =
     [\<lparr>failed_field = ''user_id'', tag = ''required'', value = [], message = []\<rparr>] \<and>
   list_all (\<lambda>ch. \<not> is_upper ch) ''user_id''"
proof -
  have m: "map struct_error [\<lparr>fe_field = ''UserID'', fe_tag = ''required'', fe_param = []\<rparr>] =
     [\<lparr>failed_field = ''user_id'', tag = ''required'', value = [], message = []\<rparr>]"
    by (simp add: struct_error_def go_eval)
  show ?thesis using struct_error_lower [of "[\<lparr>fe_field = ''UserID'', fe_tag = ''required'', fe_param = []\<rparr>]"] m
    by (simp add: list_all_iff)
qed

theorem rule_file_accepts_declared_extension_witness:
  "rule_file ''avatar'' (ex_avatar\<lparr>fh_filename := ''me.v2.png''\<rparr>) [''.jpg'', ''.png''] 1 = None"
  by (rule rule_file_accepts_declared_extension [where base = "''me.v2''" and xs = "''png''"])
    (simp_all add: ex_avatar_def)


theorem validate_struct_errors_wf_witness:
  "fst (validate_struct (\<lambda>b. Inr (ex_check b)) ex_ctx (Some ex_rules)) =
     Validate_failed [\<lparr>failed_field = ''first_name'', tag = ''required'', value = [], message = []\<rparr>,
                      \<lparr>failed_field = ''cover'', tag = ''required'', value = [], message = []\<rparr>] \<and>
   (\<exists>b ds. ctx_body ex_ctx = Inr b \<and>
      [\<lparr>failed_field = ''first_name'', tag = ''required'', value = [], message = []\<rparr>,
       \<lparr>failed_field = ''cover'', tag = ''required'', value = [], message = []\<rparr>] =
        map struct_error (ex_check b) @ ds \<and> list_all (file_error_wf ex_rules) ds)"
proof -
  have r: "fst (validate_struct (\<lambda>b. Inr (ex_check b)) ex_ctx (Some ex_rules)) =
     Validate_failed [\<lparr>failed_field = ''first_name'', tag = ''required'', value = [], message = []\<rparr>,
                      \<lparr>failed_field = ''cover'', tag = ''required'', value = [], message = []\<rparr>]"
    by (simp add: run_defs ex_defs Let_def go_eval)
  show ?thesis using r validate_struct_errors_wf [OF r] by blast
qed

theorem validate_struct_no_form_error_witness:
  "list_all (form_file_consistent (ctx_form_file ex_ctx)) ex_rules \<and>
   fiber_status (fst (validate_struct_with new_rule (\<lambda>b. Inr (ex_check b)) ex_ctx (Some ex_rules))) \<noteq> Some 500"
proof -
  have ok: "list_all (form_file_consistent (ctx_form_file ex_ctx)) ex_rules"
    by (simp add: ex_defs form_file_consistent_def)
  show ?thesis using ok validate_struct_no_form_error [OF ok] by simp
qed

theorem validate_struct_accepts_valid_witness:
  "fst (validate_struct (\<lambda>b. Inr []) ex_ctx None) = Next (ex_ctx\<lparr>ctx_locals := [''request'' \<mapsto> 7]\<rparr>) \<and>
   abs_outcome (fst (validate_struct (\<lambda>b. Inr []) ex_ctx None)) = Some (Accepted 7)"
proof -
  have "ctx_body ex_ctx = Inr 7" by (simp add: ex_ctx_def)
  moreover have "ctx_locals ex_ctx = Map.empty" by (simp add: ex_ctx_def)
  ultimately show ?thesis
    using validate_struct_accepts_valid [of ex_ctx 7 "\<lambda>b. Inr []" None] by simp
qed

theorem validate_struct_one_violation_witness:
  "fst (validate_struct (\<lambda>b. Inr (ex_check b)) ex_ctx (Some [])) =
     Validate_failed [\<lparr>failed_field = ''first_name'', tag = ''required'', value = [], message = []\<rparr>]"
proof -
  have "ctx_body ex_ctx = Inr 7" and "ex_check 7 = [\<lparr>fe_field = ''FirstName'', fe_tag = ''required'', fe_param = []\<rparr>]"
    by (simp_all add: ex_ctx_def ex_check_def)
  then show ?thesis
    using validate_struct_one_violation [of ex_ctx 7 "\<lambda>b. Inr (ex_check b)"
        "\<lparr>fe_field = ''FirstName'', fe_tag = ''required'', fe_param = []\<rparr>" "Some []"]
    by (simp add: go_eval)
qed

end
